(* ===== verification/Prelude.thy ===== *)
theory Prelude
  imports Complex_Main "HOL-Library.Monad_Syntax"
begin

section \<open>Shared vocabulary of the geometry kernel model\<close>

text \<open>
  This theory holds what the component theories share: the type that stands for the
  source's \<open>double\<close>, the rule collection that unfolds the coordinate-wise operations,
  lemmas on square roots of sums of squares (every length in \<open>src/main.cpp\<close> is one),
  on the relative-spread quotient used by the equilateral measure, and a left fold in the
  option monad that the nested loops of \<open>Triangles::connectClosestPoints\<close> are compared
  with.
\<close>

text \<open>
  A C++ \<open>double\<close> is modelled by an exact real number.  Rounding is not modelled, and
  neither are NaN and infinity: where the source divides by zero, HOL's \<open>x / 0 = 0\<close>
  applies instead, and each theory says where this matters.
\<close>

type_synonym scalar = real

named_theorems point_defs "defining equations of the coordinate-wise point operations"

subsection \<open>Left fold in the option monad\<close>

text \<open>
  \<open>fold_option f xs s\<close> runs the steps \<open>f x\<close> for the elements of \<open>xs\<close> in order,
  threading the state, and stops with \<open>None\<close> at the first step that fails.
\<close>

fun fold_option :: "('a \<Rightarrow> 's \<Rightarrow> 's option) \<Rightarrow> 'a list \<Rightarrow> 's \<Rightarrow> 's option" where
  "fold_option f [] s = Some s"
| "fold_option f (a # as) s = (case f a s of None \<Rightarrow> None | Some s' \<Rightarrow> fold_option f as s')"

subsection \<open>Sums of three squares\<close>

lemma sum_sq3_nonneg [simp]: "0 \<le> (a::real)\<^sup>2 + b\<^sup>2 + c\<^sup>2"
  by (intro add_nonneg_nonneg) simp_all

lemma sum_sq3_eq_0_iff [simp]: "((a::real)\<^sup>2 + b\<^sup>2 + c\<^sup>2 = 0) \<longleftrightarrow> a = 0 \<and> b = 0 \<and> c = 0"
proof -
  have "0 \<le> a\<^sup>2" "0 \<le> b\<^sup>2" "0 \<le> c\<^sup>2" by simp_all
  then show ?thesis by (auto simp: add_nonneg_eq_0_iff)
qed

lemma sqrt_sum_sq3_nonneg [simp]: "0 \<le> sqrt ((a::real)\<^sup>2 + b\<^sup>2 + c\<^sup>2)"
  by simp

lemma sqrt_sum_sq3_eq_0_iff [simp]:
  "(sqrt ((a::real)\<^sup>2 + b\<^sup>2 + c\<^sup>2) = 0) \<longleftrightarrow> a = 0 \<and> b = 0 \<and> c = 0"
  by simp

lemma sqrt_sum_sq3_pos_iff:
  "(0 < sqrt ((a::real)\<^sup>2 + b\<^sup>2 + c\<^sup>2)) \<longleftrightarrow> \<not> (a = 0 \<and> b = 0 \<and> c = 0)"
proof -
  have "0 \<le> sqrt (a\<^sup>2 + b\<^sup>2 + c\<^sup>2)" by (rule sqrt_sum_sq3_nonneg)
  then show ?thesis using sqrt_sum_sq3_eq_0_iff [of a b c] by linarith
qed

lemma sqrt_sum_sq3_square [simp]: "(sqrt ((a::real)\<^sup>2 + b\<^sup>2 + c\<^sup>2))\<^sup>2 = a\<^sup>2 + b\<^sup>2 + c\<^sup>2"
  by simp

subsection \<open>Relative spread of a largest and a smallest value\<close>

lemma rel_spread_bounds:
  assumes "0 \<le> m" and "m \<le> (M::real)"
  shows "0 \<le> (M - m) / M \<and> (M - m) / M \<le> 1"
proof (cases "M = 0")
  case True
  then show ?thesis by simp
next
  case False
  with assms have "0 < M" by simp
  with assms show ?thesis by (simp add: divide_le_eq_1)
qed

lemma rel_spread_eq_0_iff:
  assumes "0 \<le> m" and "m \<le> (M::real)"
  shows "(M - m) / M = 0 \<longleftrightarrow> m = M"
  using assms by auto

lemma rel_spread_eq_1_iff:
  fixes m M :: real
  assumes "0 \<le> m" and "m \<le> M"
  shows "(M - m) / M = 1 \<longleftrightarrow> M \<noteq> 0 \<and> m = 0"
  using assms by (cases "M = 0") (auto simp: divide_eq_1_iff)

lemma rel_spread_scale:
  fixes M m c :: real
  assumes "0 < c"
  shows "(c * M - c * m) / (c * M) = (M - m) / M"
  using assms by (cases "M = 0") (simp_all add: right_diff_distrib [symmetric])

lemma max3_scale:
  fixes c a b e :: real
  assumes "0 \<le> c"
  shows "max (c * a) (max (c * b) (c * e)) = c * max a (max b e)"
    and "min (c * a) (min (c * b) (c * e)) = c * min a (min b e)"
  using assms by (simp_all add: max_mult_distrib_left min_mult_distrib_left)

lemma min3_eq_0_iff:
  fixes a b c :: real
  assumes "0 \<le> a" "0 \<le> b" "0 \<le> c"
  shows "min a (min b c) = 0 \<longleftrightarrow> a = 0 \<or> b = 0 \<or> c = 0"
    and "max a (max b c) = 0 \<longleftrightarrow> a = 0 \<and> b = 0 \<and> c = 0"
  using assms by (auto simp: min_def max_def)

lemma heron_product:
  fixes a b c :: real
  shows "(a + b + c) * (- a + b + c) * (a - b + c) * (a + b - c)
         = 4 * a\<^sup>2 * c\<^sup>2 - (a\<^sup>2 + c\<^sup>2 - b\<^sup>2)\<^sup>2"
  by (simp add: algebra_simps power2_eq_square)

subsection \<open>Lemmas on the option fold\<close>

lemma fold_option_append [simp]:
  "fold_option f (as @ bs) s =
     (case fold_option f as s of None \<Rightarrow> None | Some s' \<Rightarrow> fold_option f bs s')"
  by (induction as arbitrary: s) (simp_all split: option.split)

lemma fold_option_concat:
  "fold_option f (concat xss) = fold_option (fold_option f) xss"
proof
  fix s
  show "fold_option f (concat xss) s = fold_option (fold_option f) xss s"
    by (induction xss arbitrary: s) (simp_all split: option.split)
qed

lemma fold_option_invariant:
  assumes "\<And>a s s'. a \<in> set as \<Longrightarrow> P s \<Longrightarrow> f a s = Some s' \<Longrightarrow> P s'"
    and "P s" and "fold_option f as s = Some s'"
  shows "P s'"
  using assms by (induction as arbitrary: s) (auto split: option.splits)

lemma fold_option_Some:
  assumes "\<And>a s. a \<in> set as \<Longrightarrow> P s \<Longrightarrow> \<exists>s'. f a s = Some s' \<and> P s'"
    and "P s"
  shows "\<exists>s'. fold_option f as s = Some s' \<and> P s'"
  using assms by (induction as arbitrary: s) fastforce+

lemma fold_option_map: "fold_option f (map h as) = fold_option (\<lambda>a. f (h a)) as"
proof
  fix s
  show "fold_option f (map h as) s = fold_option (\<lambda>a. f (h a)) as s"
    by (induction as arbitrary: s) (simp_all split: option.split)
qed

lemma fold_option_cong:
  assumes "\<And>a s. a \<in> set as \<Longrightarrow> P s \<Longrightarrow> f a s = g a s"
    and "\<And>a s s'. a \<in> set as \<Longrightarrow> P s \<Longrightarrow> f a s = Some s' \<Longrightarrow> P s'"
    and "P s"
  shows "fold_option f as s = fold_option g as s"
  using assms
proof (induction as arbitrary: s)
  case Nil
  then show ?case by simp
next
  case (Cons a as)
  have fg: "f a s = g a s" using Cons.prems by simp
  show ?case
  proof (cases "f a s")
    case None
    with fg show ?thesis by simp
  next
    case (Some s')
    then have "P s'" using Cons.prems(2) [of a s s'] Cons.prems(3) by simp
    have "fold_option f as s' = fold_option g as s'"
    proof (rule Cons.IH)
      fix b t
      assume "b \<in> set as" and "P t"
      then show "f b t = g b t" using Cons.prems(1) by simp
    next
      fix b t t'
      assume "b \<in> set as" and "P t" and "f b t = Some t'"
      then show "P t'" using Cons.prems(2) [of b t t'] by simp
    qed fact
    moreover have "g a s = Some s'" using Some fg by simp
    ultimately show ?thesis using Some by simp
  qed
qed

lemma fold_option_length:
  assumes "fold_option step as xs = Some xs'"
    and "\<And>a xs xs'. step a xs = Some xs' \<Longrightarrow> length xs' = length xs"
  shows "length xs' = length xs"
  using assms(1)
proof (induction as arbitrary: xs)
  case Nil
  then show ?case by simp
next
  case (Cons a as)
  then show ?case by (auto split: option.splits dest: assms(2))
qed

lemma sorted_wrt_concat:
  "sorted_wrt R (concat xss) \<longleftrightarrow>
     (\<forall>xs \<in> set xss. sorted_wrt R xs) \<and> sorted_wrt (\<lambda>xs ys. \<forall>x \<in> set xs. \<forall>y \<in> set ys. R x y) xss"
  by (induction xss) (auto simp: sorted_wrt_append)

text \<open>
  A C++ loop \<open>for (; k < v.size(); k++) body(k)\<close> over a vector whose size the body
  keeps, written as a recursive function \<open>g\<close> that re-reads the size on every test,
  runs the body over the indices \<open>k, k+1, \<dots>, size - 1\<close> fixed at the start.
\<close>

lemma for_loop_as_fold_option:
  assumes eq: "\<And>k xs. g k xs =
      (if k < length xs then (case step k xs of None \<Rightarrow> None | Some xs' \<Rightarrow> g (Suc k) xs')
       else Some xs)"
    and len: "\<And>k xs xs'. step k xs = Some xs' \<Longrightarrow> length xs' = length xs"
    and n: "length xs = n"
  shows "g k xs = fold_option step [k..<n] xs"
  using n
proof (induction "n - k" arbitrary: k xs)
  case 0
  then show ?case by (subst eq) simp
next
  case (Suc m)
  then have k: "k < n" by simp
  show ?case
  proof (cases "step k xs")
    case None
    with Suc.prems k show ?thesis by (subst eq) (simp add: upt_conv_Cons)
  next
    case (Some xs')
    with Suc.prems have "length xs' = n" by (simp add: len)
    with Suc.hyps have "g (Suc k) xs' = fold_option step [Suc k..<n] xs'" by simp
    with Some Suc.prems k show ?thesis by (subst eq) (simp add: upt_conv_Cons)
  qed
qed

subsection \<open>Runs of deterministic relations\<close>

lemma deterministic_reach_final:
  assumes det: "\<And>x y z. r x y \<Longrightarrow> r x z \<Longrightarrow> y = z"
    and "r\<^sup>*\<^sup>* a b" and final: "\<And>c. \<not> r b c" and "r\<^sup>*\<^sup>* a c"
  shows "r\<^sup>*\<^sup>* c b"
  using assms(2,4)
proof (induction arbitrary: c rule: converse_rtranclp_induct)
  case base
  then show ?case using final by (auto elim: converse_rtranclpE)
next
  case (step a a')
  have "c = a \<or> (\<exists>a''. r a a'' \<and> r\<^sup>*\<^sup>* a'' c)"
    using step.prems by (auto elim: converse_rtranclpE)
  then show ?case
  proof
    assume "c = a"
    then show ?thesis using step.hyps by (auto intro: converse_rtranclp_into_rtranclp)
  next
    assume "\<exists>a''. r a a'' \<and> r\<^sup>*\<^sup>* a'' c"
    then obtain a'' where "r a a''" and "r\<^sup>*\<^sup>* a'' c" by blast
    moreover have "a'' = a'" using det step.hyps(1) \<open>r a a''\<close> by blast
    ultimately show ?thesis using step.IH by blast
  qed
qed

lemma final_reach_eq: "r\<^sup>*\<^sup>* a b \<Longrightarrow> (\<And>c. \<not> r a c) \<Longrightarrow> b = a"
  by (auto elim: converse_rtranclpE)

end
