(* ===== verification/Point_Algebra.thy ===== *)
theory Point_Algebra
  imports Prelude
begin

section \<open>The value type \<open>Point3D\<close> and its operators\<close>

text \<open>
  Models \<open>class Point3D\<close> of \<open>src/main.cpp\<close> (lines 9--56): a point or free vector
  with three \<open>double\<close> fields \<open>x\<close>, \<open>y\<close>, \<open>z\<close>.  The C++ operators \<open>+\<close> and
  \<open>-\<close> are the class operations of an instance of \<open>ab_group_add\<close> (the group
  axioms are proved, so the library's algebra applies to points); the point
  \<open>{0, 0, 0}\<close> that the source passes to \<open>distanceTo\<close> is the instance's \<open>0\<close>.
  \<open>operator*\<close> and \<open>operator/\<close> by a scalar are \<open>point_mul\<close> and \<open>point_div\<close>;
  \<open>vector_tweak\<close>, the one operation that may mutate its receiver, returns the pair of
  the receiver after the call and the returned point.  \<open>print\<close> is output only and is
  not modelled.
\<close>

datatype Point3D = Point3D (x: scalar) (y: scalar) (z: scalar)

text \<open>\<open>operator+\<close> and \<open>operator-\<close>: coordinate-wise, as the braced initialisers build them.\<close>

definition point_add :: "Point3D \<Rightarrow> Point3D \<Rightarrow> Point3D" where
  "point_add a b = Point3D (x a + x b) (y a + y b) (z a + z b)"

definition point_sub :: "Point3D \<Rightarrow> Point3D \<Rightarrow> Point3D" where
  "point_sub a b = Point3D (x a - x b) (y a - y b) (z a - z b)"

text \<open>The literal \<open>{0, 0, 0}\<close> that the source passes to \<open>distanceTo\<close>.\<close>

definition point_origin :: Point3D where
  "point_origin = Point3D 0 0 0"

instantiation Point3D :: ab_group_add
begin

definition zero_Point3D :: Point3D where
  "0 = point_origin"

definition plus_Point3D :: "Point3D \<Rightarrow> Point3D \<Rightarrow> Point3D" where
  "a + b = point_add a b"

definition minus_Point3D :: "Point3D \<Rightarrow> Point3D \<Rightarrow> Point3D" where
  "a - b = point_sub a b"

definition uminus_Point3D :: "Point3D \<Rightarrow> Point3D" where
  "- a = Point3D (- x a) (- y a) (- z a)"

instance
  by standard (simp_all add: zero_Point3D_def plus_Point3D_def minus_Point3D_def
      uminus_Point3D_def point_add_def point_sub_def point_origin_def)

end

text \<open>\<open>operator*(const double& a)\<close>: every coordinate multiplied by \<open>a\<close>.\<close>

definition point_mul :: "Point3D \<Rightarrow> scalar \<Rightarrow> Point3D" where
  "point_mul p a = Point3D (a * x p) (a * y p) (a * z p)"

text \<open>
  \<open>vector_tweak(vector, delta, inplace)\<close>: with \<open>inplace\<close> the receiver's fields are
  incremented by \<open>delta * vector\<close> and the updated receiver is returned; otherwise a new
  point is returned and the receiver is left alone.  The pair is (receiver after the
  call, returned value).
\<close>

definition vector_tweak :: "Point3D \<Rightarrow> Point3D \<Rightarrow> scalar \<Rightarrow> bool \<Rightarrow> Point3D \<times> Point3D" where
  "vector_tweak this v delta inplace =
     (if inplace then
        (let this' = Point3D (x this + delta * x v) (y this + delta * y v) (z this + delta * z v)
         in (this', this'))
      else (this, Point3D (x this + delta * x v) (y this + delta * y v) (z this + delta * z v)))"

definition cross :: "Point3D \<Rightarrow> Point3D \<Rightarrow> Point3D" where
  "cross a b = Point3D (y a * z b - z a * y b) (z a * x b - x a * z b) (x a * y b - y a * x b)"

text \<open>\<open>distanceTo\<close>: \<open>std::pow(d, 2)\<close> is the square \<open>d\<^sup>2\<close>.\<close>

definition distanceTo :: "Point3D \<Rightarrow> Point3D \<Rightarrow> scalar" where
  "distanceTo a b = sqrt ((x a - x b)\<^sup>2 + (y a - y b)\<^sup>2 + (z a - z b)\<^sup>2)"

text \<open>\<open>operator/(const double& a)\<close>: every coordinate divided by \<open>a\<close>.\<close>

definition point_div :: "Point3D \<Rightarrow> scalar \<Rightarrow> Point3D" where
  "point_div p a = Point3D (x p / a) (y p / a) (z p / a)"

declare zero_Point3D_def [point_defs] plus_Point3D_def [point_defs]
  minus_Point3D_def [point_defs] uminus_Point3D_def [point_defs]
  point_add_def [point_defs] point_sub_def [point_defs] point_origin_def [point_defs]
  point_mul_def [point_defs] cross_def [point_defs] point_div_def [point_defs]

subsection \<open>Coordinates of the operations\<close>

lemma Point3D_eq_iff: "a = b \<longleftrightarrow> x a = x b \<and> y a = y b \<and> z a = z b"
  by (cases a; cases b) simp

lemma coords_zero [simp]: "x 0 = 0" "y 0 = 0" "z 0 = 0"
  by (simp_all add: zero_Point3D_def point_origin_def)

lemma coords_plus [simp]:
  "x (a + b) = x a + x b" "y (a + b) = y a + y b" "z (a + b) = z a + z b"
  by (simp_all add: plus_Point3D_def point_add_def)

lemma coords_minus [simp]:
  "x (a - b) = x a - x b" "y (a - b) = y a - y b" "z (a - b) = z a - z b"
  by (simp_all add: minus_Point3D_def point_sub_def)

lemma coords_uminus [simp]: "x (- a) = - x a" "y (- a) = - y a" "z (- a) = - z a"
  by (simp_all add: uminus_Point3D_def)

lemma coords_point_mul [simp]:
  "x (point_mul p a) = a * x p" "y (point_mul p a) = a * y p" "z (point_mul p a) = a * z p"
  by (simp_all add: point_mul_def)

lemma coords_point_div [simp]:
  "x (point_div p a) = x p / a" "y (point_div p a) = y p / a" "z (point_div p a) = z p / a"
  by (simp_all add: point_div_def)

lemma coords_cross [simp]:
  "x (cross a b) = y a * z b - z a * y b"
  "y (cross a b) = z a * x b - x a * z b"
  "z (cross a b) = x a * y b - y a * x b"
  by (simp_all add: cross_def)

lemmas point_coords = coords_zero coords_plus coords_minus coords_uminus coords_point_mul
  coords_point_div coords_cross

lemma Point3D_zero_iff: "p = 0 \<longleftrightarrow> x p = 0 \<and> y p = 0 \<and> z p = 0"
  by (simp add: Point3D_eq_iff)

lemma point_translate_diff [simp]: "(a + d) - (b + d) = a - (b :: Point3D)"
  by (simp add: Point3D_eq_iff)

subsection \<open>Properties of the operators\<close>

text \<open>
  C21. Dividing by a non-zero scalar undoes multiplying by it:
  \<open>(v * k) / k = v\<close> for \<open>k \<noteq> 0\<close> (the round trip of the specification, section 8).
\<close>

theorem point_div_mul_roundtrip:
  assumes "k \<noteq> 0"
  shows "point_div (point_mul v k) k = v"
  using assms by (simp add: Point3D_eq_iff)

lemma point_div_mul_roundtrip_witness:
  "(2::real) \<noteq> 0 \<and> point_div (point_mul (Point3D 1 2 3) 2) 2 = Point3D 1 2 3"
proof -
  have h: "(2::real) \<noteq> 0" by simp
  show ?thesis using point_div_mul_roundtrip [OF h, of "Point3D 1 2 3"] by simp
qed

text \<open>
  C22. Both modes of \<open>vector_tweak\<close> return the same point, \<open>this + vector * delta\<close>;
  only the in-place mode changes the receiver, to that same point.
\<close>

theorem vector_tweak_modes:
  "snd (vector_tweak p v d inplace) = p + point_mul v d
   \<and> fst (vector_tweak p v d inplace) = (if inplace then p + point_mul v d else p)"
  by (simp add: vector_tweak_def Let_def Point3D_eq_iff mult.commute)

end
