(* ===== verification/Geometry.thy ===== *)
theory Geometry
  imports Point_Algebra
begin

section \<open>Free functions over points: determinant, dot product, angle, normal, turn sign\<close>

text \<open>
  Models the free functions of \<open>src/main.cpp\<close> (lines 59--82): \<open>determinant\<close>,
  \<open>dotProduct\<close>, \<open>angleBetweenVectors\<close>, \<open>normalVector\<close> and \<open>sign\<close>, each a HOL
  function of the same name over \<open>Point3D\<close> values.  The lemmas show the triple-product
  algebra (the determinant is \<open>a \<cdot> (b \<times> c)\<close>, alternating and cyclic), Lagrange's
  identity and the Cauchy--Schwarz and triangle inequalities it gives, the range of the
  angle, the length of the normal, and the central fact about \<open>sign\<close>: since
  \<open>determinant(a, b, (a \<times> b) / |a \<times> b|) = |a \<times> b|\<close>, the result is \<open>1\<close> exactly
  when \<open>a\<close> and \<open>b\<close> are not parallel, whatever the direction of the turn.

  Where a denominator is zero the C++ code yields NaN and HOL yields \<open>0\<close>; for
  \<open>sign\<close> both give \<open>-1\<close> (NaN compares false with \<open>> 0\<close>, and \<open>0 > 0\<close> is
  false), so the model of \<open>sign\<close> agrees with the program on every input.
\<close>

definition determinant :: "Point3D \<Rightarrow> Point3D \<Rightarrow> Point3D \<Rightarrow> scalar" where
  "determinant a b c =
     x a * (y b * z c - z b * y c) - y a * (x b * z c - z b * x c) + z a * (x b * y c - y b * x c)"

definition dotProduct :: "Point3D \<Rightarrow> Point3D \<Rightarrow> scalar" where
  "dotProduct a b = x a * x b + y a * y b + z a * z b"

definition angleBetweenVectors :: "Point3D \<Rightarrow> Point3D \<Rightarrow> scalar" where
  "angleBetweenVectors a b = arccos (dotProduct a b / (distanceTo a 0 * distanceTo b 0))"

definition normalVector :: "Point3D \<Rightarrow> Point3D \<Rightarrow> Point3D" where
  "normalVector a b = point_div (cross a b) (distanceTo (cross a b) 0)"

definition sign :: "Point3D \<Rightarrow> Point3D \<Rightarrow> int" where
  "sign a b = (if determinant a b (normalVector a b) > 0 then 1 else -1)"

subsection \<open>Lengths\<close>

lemma distanceTo_zero: "distanceTo a 0 = sqrt ((x a)\<^sup>2 + (y a)\<^sup>2 + (z a)\<^sup>2)"
  by (simp add: distanceTo_def)

lemma dot_self: "dotProduct a a = (x a)\<^sup>2 + (y a)\<^sup>2 + (z a)\<^sup>2"
  by (simp add: dotProduct_def power2_eq_square)

lemma dot_self_nonneg [simp]: "0 \<le> dotProduct a a"
  by (simp add: dot_self)

lemma distanceTo_zero_sq: "(distanceTo a 0)\<^sup>2 = dotProduct a a"
  by (simp add: distanceTo_zero dot_self)

lemma distanceTo_zero_eq_sqrt_dot: "distanceTo a 0 = sqrt (dotProduct a a)"
  by (simp add: distanceTo_zero dot_self)

lemma distanceTo_nonneg [simp]: "0 \<le> distanceTo a b"
  by (simp add: distanceTo_def)

lemma distanceTo_as_zero: "distanceTo a b = distanceTo (a - b) 0"
  by (simp add: distanceTo_def)

lemma distanceTo_sym: "distanceTo a b = distanceTo b a"
  by (simp add: distanceTo_def power2_commute)

lemma distanceTo_zero_eq_0_iff [simp]: "distanceTo a 0 = 0 \<longleftrightarrow> a = 0"
  by (simp add: distanceTo_zero Point3D_zero_iff)

lemma distanceTo_zero_pos_iff: "0 < distanceTo a 0 \<longleftrightarrow> a \<noteq> 0"
  using distanceTo_nonneg [of a 0] distanceTo_zero_eq_0_iff [of a] by linarith

subsection \<open>Triple product and cross product algebra\<close>

lemma determinant_as_dot: "determinant a b c = dotProduct a (cross b c)"
  by (simp add: determinant_def dotProduct_def algebra_simps)

lemma determinant_cycle: "determinant a b c = determinant b c a"
  by (simp add: determinant_def algebra_simps)

lemma dotProduct_comm: "dotProduct a b = dotProduct b a"
  by (simp add: dotProduct_def algebra_simps)

lemma cross_swap: "cross b a = - cross a b"
  by (simp add: Point3D_eq_iff algebra_simps)

lemma cross_self [simp]: "cross a a = 0"
  by (simp add: Point3D_eq_iff algebra_simps)

lemma dot_cross_left [simp]: "dotProduct a (cross a b) = 0"
  by (simp add: dotProduct_def algebra_simps)

lemma dot_cross_right [simp]: "dotProduct b (cross a b) = 0"
  by (simp add: dotProduct_def algebra_simps)

lemma lagrange_identity:
  "dotProduct (cross a b) (cross a b) = dotProduct a a * dotProduct b b - (dotProduct a b)\<^sup>2"
  by (simp add: dotProduct_def power2_eq_square algebra_simps)

lemma cauchy_schwarz_sq: "(dotProduct a b)\<^sup>2 \<le> dotProduct a a * dotProduct b b"
  using lagrange_identity [of a b] dot_self_nonneg [of "cross a b"] by linarith

lemma cauchy_schwarz: "\<bar>dotProduct a b\<bar> \<le> distanceTo a 0 * distanceTo b 0"
proof -
  have "\<bar>dotProduct a b\<bar> = sqrt ((dotProduct a b)\<^sup>2)" by simp
  also have "\<dots> \<le> sqrt (dotProduct a a * dotProduct b b)"
    by (rule real_sqrt_le_mono) (rule cauchy_schwarz_sq)
  also have "\<dots> = distanceTo a 0 * distanceTo b 0"
    by (simp add: distanceTo_zero_eq_sqrt_dot real_sqrt_mult)
  finally show ?thesis .
qed

lemma dot_add_self:
  "dotProduct (u + v) (u + v) = dotProduct u u + 2 * dotProduct u v + dotProduct v v"
  by (simp add: dotProduct_def algebra_simps)

lemma norm_add_le: "distanceTo (u + v) 0 \<le> distanceTo u 0 + distanceTo v 0"
proof -
  have "(distanceTo (u + v) 0)\<^sup>2 = dotProduct u u + 2 * dotProduct u v + dotProduct v v"
    by (simp add: distanceTo_zero_sq dot_add_self)
  also have "\<dots> \<le> (distanceTo u 0)\<^sup>2 + 2 * (distanceTo u 0 * distanceTo v 0) + (distanceTo v 0)\<^sup>2"
    using cauchy_schwarz [of u v] by (simp add: distanceTo_zero_sq)
  also have "\<dots> = (distanceTo u 0 + distanceTo v 0)\<^sup>2"
    by (simp add: power2_sum)
  finally show ?thesis
    by (rule power2_le_imp_le) simp
qed

subsection \<open>Distances under similarity\<close>

lemma distanceTo_eq_0_iff: "distanceTo a b = 0 \<longleftrightarrow> a = b"
  by (simp add: distanceTo_as_zero [of a b])

lemma dot_diff_self:
  "dotProduct (v - u) (v - u) = dotProduct u u + dotProduct v v - 2 * dotProduct u v"
  by (simp add: dotProduct_def algebra_simps)

lemma distanceTo_sq: "(distanceTo a b)\<^sup>2 = dotProduct (a - b) (a - b)"
  by (simp add: distanceTo_as_zero [of a b] distanceTo_zero_sq)

lemma distanceTo_similar: "distanceTo (point_mul a k + d) (point_mul b k + d) = \<bar>k\<bar> * distanceTo a b"
proof -
  have "distanceTo (point_mul a k + d) (point_mul b k + d)
        = sqrt (k\<^sup>2 * ((x a - x b)\<^sup>2 + (y a - y b)\<^sup>2 + (z a - z b)\<^sup>2))"
    unfolding distanceTo_def by (rule arg_cong [where f = sqrt]) (simp add: algebra_simps power2_eq_square)
  also have "\<dots> = \<bar>k\<bar> * distanceTo a b" by (simp add: real_sqrt_mult distanceTo_def)
  finally show ?thesis .
qed

subsection \<open>The unit normal and the turn sign\<close>

lemma dot_point_div_left: "dotProduct (point_div a k) b = dotProduct a b / k"
  by (simp add: dotProduct_def add_divide_distrib)

lemma normalVector_parallel: "cross a b = 0 \<Longrightarrow> normalVector a b = 0"
  by (simp add: normalVector_def point_div_def zero_Point3D_def point_origin_def)

lemma determinant_normalVector: "determinant a b (normalVector a b) = distanceTo (cross a b) 0"
proof -
  let ?c = "cross a b"
  have "determinant a b (normalVector a b) = dotProduct (normalVector a b) ?c"
    by (metis determinant_as_dot determinant_cycle)
  also have "\<dots> = dotProduct ?c ?c / distanceTo ?c 0"
    by (simp add: normalVector_def dot_point_div_left)
  also have "\<dots> = (distanceTo ?c 0)\<^sup>2 / distanceTo ?c 0"
    by (simp add: distanceTo_zero_sq)
  also have "\<dots> = distanceTo ?c 0"
    by (simp add: power2_eq_square)
  finally show ?thesis .
qed

lemma sign_eq_cross: "sign a b = (if cross a b = 0 then -1 else 1)"
  using distanceTo_zero_pos_iff [of "cross a b"]
  by (simp add: sign_def determinant_normalVector)

lemma sign_cases: "sign a b = 1 \<or> sign a b = -1"
  by (simp add: sign_eq_cross)

lemma cross_eq_0_swap: "cross b a = 0 \<longleftrightarrow> cross a b = 0"
  by (simp add: cross_swap [of b a])

subsection \<open>Properties of the free functions\<close>

text \<open>
  C15. The cross product is anticommutative and orthogonal to both factors
  (the first testable property of the specification, section 8).
\<close>

theorem cross_product_laws:
  "cross b a = - cross a b \<and> dotProduct a (cross a b) = 0 \<and> dotProduct b (cross a b) = 0"
  by (simp add: cross_swap [of b a])

text \<open>
  C16. \<open>determinant\<close> is the scalar triple product \<open>a \<cdot> (b \<times> c)\<close>: it changes sign
  when its first two arguments are swapped and is invariant under cyclic rotation.
\<close>

theorem determinant_laws:
  "determinant b a c = - determinant a b c \<and> determinant a b c = dotProduct a (cross b c)
   \<and> determinant a b c = determinant b c a"
  by (simp add: determinant_def dotProduct_def algebra_simps)

text \<open>
  C17. Lagrange's identity for the lengths the source computes with \<open>distanceTo(0)\<close>:
  \<open>|a \<times> b|\<^sup>2 = |a|\<^sup>2 |b|\<^sup>2 - (a \<cdot> b)\<^sup>2\<close>.
\<close>

theorem cross_length_lagrange:
  "(distanceTo (cross a b) 0)\<^sup>2 = (distanceTo a 0)\<^sup>2 * (distanceTo b 0)\<^sup>2 - (dotProduct a b)\<^sup>2"
  by (simp add: distanceTo_zero_sq lagrange_identity)

text \<open>
  C2. \<open>sign(a, b)\<close> is \<open>1\<close> exactly when \<open>a\<close> and \<open>b\<close> are not parallel
  (their cross product is not zero); otherwise it is \<open>-1\<close>.  It never reports the
  direction of the turn from \<open>a\<close> to \<open>b\<close>.
\<close>

theorem sign_one_iff_not_parallel: "(sign a b = 1 \<longleftrightarrow> cross a b \<noteq> 0) \<and> (sign a b = -1 \<longleftrightarrow> cross a b = 0)"
  by (simp add: sign_eq_cross)

text \<open>
  C18. For non-parallel \<open>a\<close> and \<open>b\<close>, \<open>normalVector a b\<close> has length 1 and is
  orthogonal to both.
\<close>

theorem normalVector_unit_orthogonal:
  assumes "cross a b \<noteq> 0"
  shows "distanceTo (normalVector a b) 0 = 1 \<and> dotProduct a (normalVector a b) = 0
    \<and> dotProduct b (normalVector a b) = 0"
proof -
  let ?c = "cross a b"
  have pos: "0 < distanceTo ?c 0" by (rule iffD2 [OF distanceTo_zero_pos_iff]) (rule assms)
  have "dotProduct (normalVector a b) (normalVector a b) = dotProduct ?c ?c / (distanceTo ?c 0)\<^sup>2"
    by (simp add: normalVector_def dotProduct_def power2_eq_square add_divide_distrib)
  also have "\<dots> = 1" using assms by (simp add: distanceTo_zero_sq [symmetric])
  finally have "distanceTo (normalVector a b) 0 = 1"
    by (simp add: distanceTo_zero_eq_sqrt_dot)
  moreover have "dotProduct a (normalVector a b) = 0" "dotProduct b (normalVector a b) = 0"
    by (simp_all add: normalVector_def dotProduct_comm [of _ "point_div _ _"] dot_point_div_left
        dotProduct_comm [of "cross a b"])
  ultimately show ?thesis by simp
qed

lemma normalVector_unit_orthogonal_witness:
  "cross (Point3D 1 0 0) (Point3D 0 1 0) \<noteq> 0
   \<and> distanceTo (normalVector (Point3D 1 0 0) (Point3D 0 1 0)) 0 = 1"
proof -
  have h: "cross (Point3D 1 0 0) (Point3D 0 1 0) \<noteq> 0"
    by (simp add: cross_def zero_Point3D_def point_origin_def)
  show ?thesis using h normalVector_unit_orthogonal [OF h] by simp
qed

text \<open>
  C19. For non-zero \<open>a\<close> and \<open>b\<close> the quotient that \<open>angleBetweenVectors\<close> passes to
  \<open>acos\<close> lies in \<open>[-1, 1]\<close> (so no clamping is needed in exact arithmetic): the angle is
  in \<open>[0, \<pi>]\<close> and its cosine is \<open>a \<cdot> b / (|a| |b|)\<close>.
\<close>

theorem angle_range_cos:
  assumes "a \<noteq> 0" and "b \<noteq> 0"
  shows "0 \<le> angleBetweenVectors a b \<and> angleBetweenVectors a b \<le> pi
    \<and> cos (angleBetweenVectors a b) = dotProduct a b / (distanceTo a 0 * distanceTo b 0)"
proof -
  let ?n = "distanceTo a 0 * distanceTo b 0"
  let ?r = "dotProduct a b / ?n"
  have n: "0 < ?n" using assms by (simp add: distanceTo_zero_pos_iff)
  have "\<bar>?r\<bar> = \<bar>dotProduct a b\<bar> / ?n" using n by (simp add: abs_divide)
  also have "\<dots> \<le> 1" using n cauchy_schwarz [of a b] by (simp only: divide_le_eq_1_pos)
  finally have "\<bar>?r\<bar> \<le> 1" .
  then have lo: "- 1 \<le> ?r" and hi: "?r \<le> 1" by linarith+
  have ang: "angleBetweenVectors a b = arccos ?r" by (simp only: angleBetweenVectors_def)
  show ?thesis
    unfolding ang using arccos_lbound [OF lo hi] arccos_ubound [OF lo hi] cos_arccos [OF lo hi]
    by blast
qed

lemma angle_range_cos_witness:
  "Point3D 1 0 0 \<noteq> 0 \<and> Point3D 1 1 0 \<noteq> 0
   \<and> 0 \<le> angleBetweenVectors (Point3D 1 0 0) (Point3D 1 1 0)
   \<and> angleBetweenVectors (Point3D 1 0 0) (Point3D 1 1 0) \<le> pi"
proof -
  have h1: "Point3D 1 0 0 \<noteq> 0" and h2: "Point3D 1 1 0 \<noteq> 0"
    by (simp_all add: zero_Point3D_def point_origin_def)
  show ?thesis using h1 h2 angle_range_cos [OF h1 h2] by simp
qed

text \<open>
  C20. \<open>distanceTo\<close> is a metric: it is zero exactly on equal points, symmetric, and
  satisfies the triangle inequality.
\<close>

theorem distanceTo_metric:
  "(distanceTo a b = 0 \<longleftrightarrow> a = b) \<and> distanceTo a b = distanceTo b a
   \<and> distanceTo a c \<le> distanceTo a b + distanceTo b c"
proof -
  have "distanceTo a c = distanceTo ((a - b) + (b - c)) 0"
    by (simp add: distanceTo_as_zero [of a c])
  also have "\<dots> \<le> distanceTo (a - b) 0 + distanceTo (b - c) 0"
    by (rule norm_add_le)
  finally have "distanceTo a c \<le> distanceTo a b + distanceTo b c"
    by (simp add: distanceTo_as_zero [of a b] distanceTo_as_zero [of b c])
  moreover have "distanceTo a b = 0 \<longleftrightarrow> a = b"
    by (simp add: distanceTo_as_zero [of a b])
  ultimately show ?thesis by (simp add: distanceTo_sym)
qed

end
