(* ===== verification/Triangle_Model.thy ===== *)
theory Triangle_Model
  imports Geometry
begin

section \<open>The class \<open>Triangle\<close>\<close>

text \<open>
  Models \<open>class Triangle\<close> of \<open>src/main.cpp\<close> (lines 86--169): the three corners as a
  record, and the methods \<open>contains\<close>, \<open>area\<close>, \<open>sideLength\<close>, \<open>isEquilateral\<close> and
  \<open>improveEquilateral\<close> as functions of the receiver.  \<open>improveEquilateral\<close> may
  assign to \<open>*this\<close>; it returns the pair (receiver after the call, returned triangle).
  \<open>print\<close> is output only and is not modelled.
\<close>

record Triangle =
  p1 :: Point3D
  p2 :: Point3D
  p3 :: Point3D

text \<open>The constructor \<open>Triangle(a, b, c)\<close> copies its arguments into the corners.\<close>

definition Triangle_init :: "Point3D \<Rightarrow> Point3D \<Rightarrow> Point3D \<Rightarrow> Triangle" where
  "Triangle_init a b c = \<lparr>p1 = a, p2 = b, p3 = c\<rparr>"

text \<open>
  \<open>contains(p)\<close>: the two early returns of the source are the two \<open>if\<close>s; the
  condition of the second is the source's \<open>||\<close> of two \<open>!=\<close> tests.
\<close>

definition contains :: "Triangle \<Rightarrow> Point3D \<Rightarrow> bool" where
  "contains t p =
     (let v0 = p1 t - p; v1 = p2 t - p; v2 = p3 t - p
      in if determinant v0 v1 v2 < 0 then False
         else if sign v0 v1 \<noteq> sign v1 v2 \<or> sign v1 v2 \<noteq> sign v2 v0 then False
         else True)"

definition area :: "Triangle \<Rightarrow> scalar" where
  "area t = (let v0 = p2 t - p1 t; v1 = p3 t - p1 t in distanceTo (cross v0 v1) 0 / 2)"

definition sideLength :: "Triangle \<Rightarrow> Point3D \<Rightarrow> Point3D \<Rightarrow> scalar" where
  "sideLength t a b = distanceTo a b"

text \<open>
  \<open>isEquilateral()\<close>: \<open>std::max({s1, s2, s3})\<close> and \<open>std::min({s1, s2, s3})\<close> are the
  largest and the smallest of the three side lengths.  For a triangle whose three corners
  coincide the C++ quotient is \<open>0 / 0\<close>, NaN; the model gives \<open>0\<close>.
\<close>

definition isEquilateral :: "Triangle \<Rightarrow> scalar" where
  "isEquilateral t =
     (let side1 = sideLength t (p1 t) (p2 t);
          side2 = sideLength t (p2 t) (p3 t);
          side3 = sideLength t (p3 t) (p1 t);
          maxSide = max side1 (max side2 side3);
          minSide = min side1 (min side2 side3)
      in (maxSide - minSide) / maxSide)"

text \<open>
  \<open>improveEquilateral(delta, tolerance, inplace)\<close>.  Both branches of the body of the
  source's \<open>while (deviation > tolerance)\<close> end in \<open>return\<close>, so the body runs at most
  once and the loop is the \<open>if\<close> below; nothing in it assigns to the corners of
  \<open>improvedTriangle\<close>, and \<open>delta\<close> and \<open>maxSide\<close> are computed but not used.
  The pair is (receiver after the call, returned triangle); \<open>*this = improvedTriangle\<close>
  is the assignment in the in-place branch.
\<close>

definition improveEquilateral :: "scalar \<Rightarrow> scalar \<Rightarrow> bool \<Rightarrow> Triangle \<Rightarrow> Triangle \<times> Triangle" where
  "improveEquilateral delta tolerance inplace this =
     (let improvedTriangle = this;
          deviation = isEquilateral improvedTriangle
      in if deviation > tolerance then
           (let side1 = sideLength improvedTriangle (p1 improvedTriangle) (p2 improvedTriangle);
                side2 = sideLength improvedTriangle (p2 improvedTriangle) (p3 improvedTriangle);
                side3 = sideLength improvedTriangle (p3 improvedTriangle) (p1 improvedTriangle);
                maxSide = max side1 (max side2 side3)
            in if inplace then (improvedTriangle, improvedTriangle)
               else (this, improvedTriangle))
         else (this, improvedTriangle))"

text \<open>The call \<open>improveEquilateral()\<close> with the default arguments \<open>1e-4, 1e-3, true\<close>.\<close>

definition improveEquilateral_default :: "Triangle \<Rightarrow> Triangle \<times> Triangle" where
  "improveEquilateral_default t = improveEquilateral (1 / 10000) (1 / 1000) True t"

text \<open>
  Reference definitions the proofs compare the methods with (not code of the source):
  Heron's formula for the area of a triangle from its three side lengths, and the image
  of a triangle under the similarity \<open>q \<mapsto> k q + d\<close>.
\<close>

definition heron_area :: "scalar \<Rightarrow> scalar \<Rightarrow> scalar \<Rightarrow> scalar" where
  "heron_area a b c = sqrt ((a + b + c) * (- a + b + c) * (a - b + c) * (a + b - c)) / 4"

definition similar_image :: "Triangle \<Rightarrow> scalar \<Rightarrow> Point3D \<Rightarrow> Triangle" where
  "similar_image t k d =
     Triangle_init (point_mul (p1 t) k + d) (point_mul (p2 t) k + d) (point_mul (p3 t) k + d)"

text \<open>
  A point of the plane of the triangle, in affine coordinates \<open>(s, r)\<close> along the two
  edges from \<open>p1\<close> (a notion of the proofs, not of the source).
\<close>

definition plane_point :: "Triangle \<Rightarrow> scalar \<Rightarrow> scalar \<Rightarrow> Point3D" where
  "plane_point t s r = p1 t + point_mul (p2 t - p1 t) s + point_mul (p3 t - p1 t) r"

subsection \<open>Shared lemmas\<close>

lemma point_mul_eq_0_iff [simp]: "point_mul v k = 0 \<longleftrightarrow> k = 0 \<or> v = 0"
  by (auto simp: Point3D_eq_iff)

lemma Triangle_init_sel [simp]:
  "p1 (Triangle_init a b c) = a" "p2 (Triangle_init a b c) = b" "p3 (Triangle_init a b c) = c"
  by (simp_all add: Triangle_init_def)

text \<open>Unfolding \<open>contains\<close> down to the cross products that decide it.\<close>

lemma contains_unfold:
  "contains t p \<longleftrightarrow>
     \<not> determinant (p1 t - p) (p2 t - p) (p3 t - p) < 0
     \<and> (cross (p1 t - p) (p2 t - p) = 0 \<longleftrightarrow> cross (p2 t - p) (p3 t - p) = 0)
     \<and> (cross (p2 t - p) (p3 t - p) = 0 \<longleftrightarrow> cross (p3 t - p) (p1 t - p) = 0)"
  by (simp add: contains_def Let_def sign_eq_cross)

text \<open>The facts that evaluate the kernel's operations on concrete corners.\<close>

lemmas triangle_eval = contains_unfold determinant_def cross_def zero_Point3D_def point_origin_def
  minus_Point3D_def point_sub_def area_def isEquilateral_def sideLength_def distanceTo_def

text \<open>
  For a point of the plane of the triangle, given by \<open>plane_point\<close>, the three
  edge-to-point cross products are multiples of the triangle's normal, and the determinant
  is zero.
\<close>

lemma plane_point_cross:
  "cross (p1 t - plane_point t s r) (p2 t - plane_point t s r) = point_mul (cross (p2 t - p1 t) (p3 t - p1 t)) r"
  "cross (p2 t - plane_point t s r) (p3 t - plane_point t s r) = point_mul (cross (p2 t - p1 t) (p3 t - p1 t)) (1 - s - r)"
  "cross (p3 t - plane_point t s r) (p1 t - plane_point t s r) = point_mul (cross (p2 t - p1 t) (p3 t - p1 t)) s"
  by (simp_all add: plane_point_def Point3D_eq_iff algebra_simps)

lemma plane_point_determinant:
  "determinant (p1 t - plane_point t s r) (p2 t - plane_point t s r) (p3 t - plane_point t s r) = 0"
  by (simp add: plane_point_def determinant_def algebra_simps)

lemma edge_cross_rotate: "cross (c - b) (a - b) = cross (b - a) (c - (a::Point3D))"
  by (simp add: Point3D_eq_iff algebra_simps)

lemma sides_bounds:
  fixes s1 s2 s3 :: real
  assumes "0 \<le> s1" "0 \<le> s2" "0 \<le> s3"
  shows "0 \<le> min s1 (min s2 s3)" and "min s1 (min s2 s3) \<le> max s1 (max s2 s3)"
    and "min s1 (min s2 s3) = max s1 (max s2 s3) \<longleftrightarrow> s1 = s2 \<and> s2 = s3"
  using assms by (auto simp: min_def max_def)

lemma area_sq_lagrange:
  "(2 * area t)\<^sup>2 = dotProduct (p2 t - p1 t) (p2 t - p1 t) * dotProduct (p3 t - p1 t) (p3 t - p1 t)
        - (dotProduct (p2 t - p1 t) (p3 t - p1 t))\<^sup>2"
  by (simp add: area_def Let_def distanceTo_zero_sq lagrange_identity)

subsection \<open>Properties of \<open>contains\<close>\<close>

text \<open>
  C1. For a non-degenerate triangle and a point \<open>p1 + s (p2 - p1) + r (p3 - p1)\<close> of its
  plane, \<open>contains\<close> holds exactly when \<open>s \<noteq> 0\<close>, \<open>r \<noteq> 0\<close> and \<open>s + r \<noteq> 1\<close>,
  that is, when the point lies on none of the three lines through two corners.  The
  inside of the triangle is \<open>s \<ge> 0, r \<ge> 0, s + r \<le> 1\<close>: the test accepts almost every
  point of the plane, inside or not, and rejects the corners and edges.
\<close>

theorem contains_in_plane:
  assumes "cross (p2 t - p1 t) (p3 t - p1 t) \<noteq> 0"
  shows "contains t (plane_point t s r) \<longleftrightarrow> s \<noteq> 0 \<and> r \<noteq> 0 \<and> s + r \<noteq> 1"
  using assms by (auto simp: contains_unfold plane_point_cross plane_point_determinant)

lemma contains_in_plane_witness:
  "cross (p2 (Triangle_init (Point3D 0 0 0) (Point3D 4 0 0) (Point3D 0 4 0)) - p1 (Triangle_init (Point3D 0 0 0) (Point3D 4 0 0) (Point3D 0 4 0)))
         (p3 (Triangle_init (Point3D 0 0 0) (Point3D 4 0 0) (Point3D 0 4 0)) - p1 (Triangle_init (Point3D 0 0 0) (Point3D 4 0 0) (Point3D 0 4 0))) \<noteq> 0
   \<and> contains (Triangle_init (Point3D 0 0 0) (Point3D 4 0 0) (Point3D 0 4 0))
       (plane_point (Triangle_init (Point3D 0 0 0) (Point3D 4 0 0) (Point3D 0 4 0)) (5 / 4) (5 / 4))"
proof -
  let ?t = "Triangle_init (Point3D 0 0 0) (Point3D 4 0 0) (Point3D 0 4 0)"
  have h: "cross (p2 ?t - p1 ?t) (p3 ?t - p1 ?t) \<noteq> 0" by (simp add: triangle_eval)
  show ?thesis using h contains_in_plane [OF h, of "5 / 4" "5 / 4"] by simp
qed

text \<open>
  C6. \<open>contains t p\<close> holds exactly when the determinant of the three corner-to-point
  vectors is not negative and the three consecutive pairs of them are either all
  parallel or all non-parallel.
\<close>

theorem contains_iff:
  "contains t p \<longleftrightarrow>
     0 \<le> determinant (p1 t - p) (p2 t - p) (p3 t - p)
     \<and> ((cross (p1 t - p) (p2 t - p) \<noteq> 0 \<and> cross (p2 t - p) (p3 t - p) \<noteq> 0 \<and> cross (p3 t - p) (p1 t - p) \<noteq> 0)
        \<or> (cross (p1 t - p) (p2 t - p) = 0 \<and> cross (p2 t - p) (p3 t - p) = 0 \<and> cross (p3 t - p) (p1 t - p) = 0))"
  by (auto simp: contains_unfold)

lemma determinant_nonzero_cross:
  assumes "determinant a b c \<noteq> 0"
  shows "cross a b \<noteq> 0 \<and> cross b c \<noteq> 0 \<and> cross c a \<noteq> 0"
proof -
  have d: "determinant a b c = dotProduct a (cross b c)" "determinant a b c = dotProduct b (cross c a)"
    "determinant a b c = dotProduct c (cross a b)"
    by (simp_all add: determinant_def dotProduct_def algebra_simps)
  have z: "\<And>v. dotProduct v 0 = 0" by (simp add: dotProduct_def)
  show ?thesis using assms by (metis d z)
qed

text \<open>
  C30. Off the plane of the triangle none of the three cross products vanishes, so the
  orientation tests always agree and \<open>contains\<close> reduces to the pre-check, which
  rejects only a negative determinant: every point strictly on one side of the plane is
  accepted, however far from the triangle, and every point on the other side rejected.
\<close>

theorem contains_off_plane:
  assumes "determinant (p1 t - p) (p2 t - p) (p3 t - p) \<noteq> 0"
  shows "contains t p \<longleftrightarrow> 0 < determinant (p1 t - p) (p2 t - p) (p3 t - p)"
  using determinant_nonzero_cross [OF assms] assms by (auto simp: contains_unfold)

lemma contains_off_plane_witness:
  "determinant (p1 (Triangle_init (Point3D 0 0 0) (Point3D 4 0 0) (Point3D 0 4 0)) - Point3D 100 100 (- 1)) (p2 (Triangle_init (Point3D 0 0 0) (Point3D 4 0 0) (Point3D 0 4 0)) - Point3D 100 100 (- 1)) (p3 (Triangle_init (Point3D 0 0 0) (Point3D 4 0 0) (Point3D 0 4 0)) - Point3D 100 100 (- 1)) \<noteq> 0
   \<and> contains (Triangle_init (Point3D 0 0 0) (Point3D 4 0 0) (Point3D 0 4 0)) (Point3D 100 100 (- 1))"
proof -
  let ?T = "Triangle_init (Point3D 0 0 0) (Point3D 4 0 0) (Point3D 0 4 0)" and ?p = "Point3D 100 100 (- 1)"
  have h: "determinant (p1 ?T - ?p) (p2 ?T - ?p) (p3 ?T - ?p) \<noteq> 0" by (simp add: triangle_eval)
  have "0 < determinant (p1 ?T - ?p) (p2 ?T - ?p) (p3 ?T - ?p)" by (simp add: triangle_eval)
  then show ?thesis using h contains_off_plane [OF h] by simp
qed

lemma isEquilateral_sides:
  "isEquilateral t =
     (max (distanceTo (p1 t) (p2 t)) (max (distanceTo (p2 t) (p3 t)) (distanceTo (p3 t) (p1 t)))
      - min (distanceTo (p1 t) (p2 t)) (min (distanceTo (p2 t) (p3 t)) (distanceTo (p3 t) (p1 t))))
     / max (distanceTo (p1 t) (p2 t)) (max (distanceTo (p2 t) (p3 t)) (distanceTo (p3 t) (p1 t)))"
  by (simp add: isEquilateral_def sideLength_def Let_def)

lemma improveEquilateral_default_fixed: "improveEquilateral_default t = (t, t)"
  by (simp add: improveEquilateral_default_def improveEquilateral_def Let_def)

subsection \<open>Properties of \<open>area\<close>\<close>

text \<open>
  C13. The area is non-negative, zero exactly for a degenerate triangle (the two edge
  vectors from \<open>p1\<close> are parallel), unchanged when the corners are rotated, and its
  square is given by Lagrange's identity on the two edges.
\<close>

theorem area_laws:
  "0 \<le> area t
   \<and> (area t = 0 \<longleftrightarrow> cross (p2 t - p1 t) (p3 t - p1 t) = 0)
   \<and> area (Triangle_init (p2 t) (p3 t) (p1 t)) = area t
   \<and> (2 * area t)\<^sup>2 = dotProduct (p2 t - p1 t) (p2 t - p1 t) * dotProduct (p3 t - p1 t) (p3 t - p1 t)
        - (dotProduct (p2 t - p1 t) (p3 t - p1 t))\<^sup>2"
proof -
  have rot: "area (Triangle_init (p2 t) (p3 t) (p1 t)) = area t"
    by (simp add: area_def Let_def edge_cross_rotate)
  have sq: "(2 * area t)\<^sup>2 = dotProduct (p2 t - p1 t) (p2 t - p1 t) * dotProduct (p3 t - p1 t) (p3 t - p1 t)
        - (dotProduct (p2 t - p1 t) (p3 t - p1 t))\<^sup>2"
    by (rule area_sq_lagrange)
  have "0 \<le> area t" and "area t = 0 \<longleftrightarrow> cross (p2 t - p1 t) (p3 t - p1 t) = 0"
    by (simp_all add: area_def Let_def)
  with rot sq show ?thesis by simp
qed

subsection \<open>Properties of \<open>isEquilateral\<close>\<close>

text \<open>
  C11. For a triangle whose corners are not all one point (then every side is \<open>0\<close>
  and line 135 computes \<open>0 / 0\<close>, NaN), the deviation lies in \<open>[0, 1]\<close>, and it
  is \<open>0\<close> exactly when the three side lengths are equal.
\<close>

theorem isEquilateral_range:
  assumes "\<not> (p1 t = p2 t \<and> p2 t = p3 t)"
  shows "0 \<le> isEquilateral t \<and> isEquilateral t \<le> 1
   \<and> (isEquilateral t = 0 \<longleftrightarrow>
        sideLength t (p1 t) (p2 t) = sideLength t (p2 t) (p3 t)
        \<and> sideLength t (p2 t) (p3 t) = sideLength t (p3 t) (p1 t))"
proof -
  let ?a = "distanceTo (p1 t) (p2 t)" and ?b = "distanceTo (p2 t) (p3 t)"
    and ?c = "distanceTo (p3 t) (p1 t)"
  have "0 \<le> ?a" "0 \<le> ?b" "0 \<le> ?c" by simp_all
  note sb = sides_bounds [OF this]
  show ?thesis
    using rel_spread_bounds [OF sb(1,2)] rel_spread_eq_0_iff [OF sb(1,2)] sb(3)
    by (simp add: isEquilateral_sides sideLength_def)
qed

lemma isEquilateral_range_witness:
  "\<not> (p1 (Triangle_init (Point3D 0 0 0) (Point3D 1 0 0) (Point3D 0 1 0)) = p2 (Triangle_init (Point3D 0 0 0) (Point3D 1 0 0) (Point3D 0 1 0)) \<and> p2 (Triangle_init (Point3D 0 0 0) (Point3D 1 0 0) (Point3D 0 1 0)) = p3 (Triangle_init (Point3D 0 0 0) (Point3D 1 0 0) (Point3D 0 1 0)))
   \<and> 0 \<le> isEquilateral (Triangle_init (Point3D 0 0 0) (Point3D 1 0 0) (Point3D 0 1 0)) \<and> isEquilateral (Triangle_init (Point3D 0 0 0) (Point3D 1 0 0) (Point3D 0 1 0)) \<le> 1"
proof -
  have h: "\<not> (p1 (Triangle_init (Point3D 0 0 0) (Point3D 1 0 0) (Point3D 0 1 0)) = p2 (Triangle_init (Point3D 0 0 0) (Point3D 1 0 0) (Point3D 0 1 0)) \<and> p2 (Triangle_init (Point3D 0 0 0) (Point3D 1 0 0) (Point3D 0 1 0)) = p3 (Triangle_init (Point3D 0 0 0) (Point3D 1 0 0) (Point3D 0 1 0)))"
    by simp
  show ?thesis using h isEquilateral_range [OF h] by blast
qed

subsection \<open>Properties of \<open>improveEquilateral\<close>\<close>

text \<open>
  C3. \<open>improveEquilateral\<close> changes nothing: for every \<open>delta\<close>, \<open>tolerance\<close> and
  mode it returns the receiver unchanged and leaves the receiver unchanged.  It always
  returns (the loop body runs at most once), and it never moves a corner.
\<close>

theorem improveEquilateral_is_noop: "improveEquilateral delta tolerance inplace t = (t, t)"
  by (simp add: improveEquilateral_def Let_def)

lemma sqrt_sq_nat: "sqrt (real (n * n)) = real n"
  by (simp add: real_sqrt_abs2 [of "real n", simplified])

subsection \<open>Reference area, similarity, degenerate deviation\<close>

text \<open>
  C9. \<open>area\<close>, computed from the cross product of two edges, refines the reference
  specification of the area of a triangle from its side lengths (Heron's formula),
  evaluated on the three lengths \<open>sideLength\<close> returns.
\<close>

theorem area_eq_heron:
  "area t = heron_area (sideLength t (p1 t) (p2 t)) (sideLength t (p2 t) (p3 t)) (sideLength t (p3 t) (p1 t))"
proof -
  let ?u = "p2 t - p1 t" and ?v = "p3 t - p1 t"
  let ?a = "distanceTo (p1 t) (p2 t)" and ?b = "distanceTo (p2 t) (p3 t)" and ?c = "distanceTo (p3 t) (p1 t)"
  have a: "?a\<^sup>2 = dotProduct ?u ?u"
    by (simp add: distanceTo_sym [of "p1 t"] distanceTo_sq)
  have c: "?c\<^sup>2 = dotProduct ?v ?v" by (simp add: distanceTo_sq)
  have b: "?b\<^sup>2 = dotProduct ?u ?u + dotProduct ?v ?v - 2 * dotProduct ?u ?v"
  proof -
    have e: "p3 t - p2 t = ?v - ?u" by (simp add: Point3D_eq_iff)
    have "?b\<^sup>2 = dotProduct (p3 t - p2 t) (p3 t - p2 t)"
      by (simp only: distanceTo_sym [of "p2 t"] distanceTo_sq)
    also have "\<dots> = dotProduct (?v - ?u) (?v - ?u)" by (simp only: e)
    also have "\<dots> = dotProduct ?u ?u + dotProduct ?v ?v - 2 * dotProduct ?u ?v"
      by (rule dot_diff_self)
    finally show ?thesis .
  qed
  have "(?a + ?b + ?c) * (- ?a + ?b + ?c) * (?a - ?b + ?c) * (?a + ?b - ?c) = (4 * area t)\<^sup>2"
  proof -
    have "(?a + ?b + ?c) * (- ?a + ?b + ?c) * (?a - ?b + ?c) * (?a + ?b - ?c)
          = 4 * ?a\<^sup>2 * ?c\<^sup>2 - (?a\<^sup>2 + ?c\<^sup>2 - ?b\<^sup>2)\<^sup>2" by (rule heron_product)
    also have "\<dots> = 4 * (dotProduct ?u ?u * dotProduct ?v ?v - (dotProduct ?u ?v)\<^sup>2)"
      by (simp only: a b c) (simp add: algebra_simps power2_eq_square)
    also have "\<dots> = (4 * area t)\<^sup>2"
      by (simp only: area_sq_lagrange [symmetric]) (simp add: power2_eq_square)
    finally show ?thesis .
  qed
  note prod = this
  have "0 \<le> area t" by (simp add: area_def Let_def)
  then have sq: "sqrt ((4 * area t)\<^sup>2) = 4 * area t" by (simp only: real_sqrt_abs)
  show ?thesis by (simp only: heron_area_def sideLength_def prod sq)
qed

text \<open>
  C14. A similarity \<open>q \<mapsto> k q + d\<close> with \<open>k \<noteq> 0\<close> leaves the equilateral
  deviation unchanged and multiplies the area by \<open>k\<^sup>2\<close>.
\<close>

theorem similar_image_shape:
  assumes "k \<noteq> 0"
  shows "isEquilateral (similar_image t k d) = isEquilateral t
    \<and> area (similar_image t k d) = k\<^sup>2 * area t"
proof -
  have k: "0 < \<bar>k\<bar>" using assms by simp
  have "isEquilateral (similar_image t k d) = isEquilateral t"
    using rel_spread_scale [OF k]
    by (simp add: similar_image_def isEquilateral_sides distanceTo_similar max3_scale)
  moreover have "area (similar_image t k d) = k\<^sup>2 * area t"
  proof -
    have "cross (point_mul (p2 t) k + d - (point_mul (p1 t) k + d)) (point_mul (p3 t) k + d - (point_mul (p1 t) k + d))
          = point_mul (cross (p2 t - p1 t) (p3 t - p1 t)) (k\<^sup>2)"
      by (simp add: Point3D_eq_iff algebra_simps power2_eq_square)
    moreover have "distanceTo (point_mul w (k\<^sup>2)) 0 = k\<^sup>2 * distanceTo w 0" for w
    proof -
      have pz: "point_mul 0 (k\<^sup>2) = 0" by (simp add: Point3D_eq_iff)
      show ?thesis using distanceTo_similar [of w "k\<^sup>2" 0 0] by (simp add: pz)
    qed
    ultimately show ?thesis by (simp add: similar_image_def area_def Let_def)
  qed
  ultimately show ?thesis ..
qed

lemma similar_image_shape_witness:
  "(2::real) \<noteq> 0
   \<and> isEquilateral (similar_image (Triangle_init (Point3D 0 0 0) (Point3D 1 0 0) (Point3D 0 1 0)) 2 (Point3D 1 1 1))
       = isEquilateral (Triangle_init (Point3D 0 0 0) (Point3D 1 0 0) (Point3D 0 1 0))"
proof -
  have h: "(2::real) \<noteq> 0" by simp
  show ?thesis
    using h similar_image_shape [OF h, of "Triangle_init (Point3D 0 0 0) (Point3D 1 0 0) (Point3D 0 1 0)" "Point3D 1 1 1"]
    by simp
qed

text \<open>
  C12. The deviation is exactly \<open>1\<close> when two corners coincide and the third does
  not: the shortest side is \<open>0\<close> and the longest is not.
\<close>

theorem isEquilateral_one_iff:
  "isEquilateral t = 1 \<longleftrightarrow>
     (p1 t = p2 t \<or> p2 t = p3 t \<or> p3 t = p1 t) \<and> \<not> (p1 t = p2 t \<and> p2 t = p3 t)"
proof -
  let ?a = "distanceTo (p1 t) (p2 t)" and ?b = "distanceTo (p2 t) (p3 t)"
    and ?c = "distanceTo (p3 t) (p1 t)"
  have nn: "0 \<le> ?a" "0 \<le> ?b" "0 \<le> ?c" by simp_all
  note sb = sides_bounds [OF nn]
  have "isEquilateral t = 1 \<longleftrightarrow> max ?a (max ?b ?c) \<noteq> 0 \<and> min ?a (min ?b ?c) = 0"
    using rel_spread_eq_1_iff [OF sb(1,2)] by (simp add: isEquilateral_sides)
  also have "\<dots> \<longleftrightarrow> \<not> (p1 t = p2 t \<and> p2 t = p3 t \<and> p3 t = p1 t)
      \<and> (p1 t = p2 t \<or> p2 t = p3 t \<or> p3 t = p1 t)"
    by (simp add: min3_eq_0_iff [OF nn] distanceTo_eq_0_iff)
  finally have eq: "isEquilateral t = 1 \<longleftrightarrow> \<not> (p1 t = p2 t \<and> p2 t = p3 t \<and> p3 t = p1 t)
      \<and> (p1 t = p2 t \<or> p2 t = p3 t \<or> p3 t = p1 t)" .
  have "p1 t = p2 t \<and> p2 t = p3 t \<longrightarrow> p3 t = p1 t" by simp
  with eq show ?thesis by blast
qed

end
