(* ===== verification/Triangle_Set.thy ===== *)
theory Triangle_Set
  imports Triangle_Model "HOL-Library.Product_Lexorder"
begin

section \<open>The class \<open>Triangles\<close>: a vector of triangles and the all-triples pass\<close>

text \<open>
  Models \<open>class Triangles\<close> of \<open>src/main.cpp\<close> (lines 172--192): the owned
  \<open>std::vector<Triangle>\<close> as a record with a list field, \<open>addTriangle\<close> as an append,
  and \<open>connectClosestPoints\<close> as three nested loops over \<open>i < j < k\<close>.

  \<open>std::vector::operator[]\<close> does not check its index; reading or writing out of range
  is undefined behaviour, modelled as \<open>None\<close> by \<open>vector_at\<close> and \<open>vector_assign\<close>.
  Each loop is a \<open>partial_function (option)\<close> that re-reads \<open>triangles.size()\<close> on
  every test, as the C++ \<open>for\<close> does, so \<open>None\<close> also stands for a loop that does not
  end; the theorems below show that the pass always returns \<open>Some\<close>.

  The pass is written over an adjusting call \<open>f\<close>: \<open>f t\<close> is the pair (receiver
  after the call, returned triangle) of \<open>t.improveEquilateral()\<close>.  The source's
  pass is the instance \<open>f = improveEquilateral_default\<close>, \<open>connectClosestPoints\<close>.
\<close>

record Triangles =
  triangles :: "Triangle list"

type_synonym adjust = "Triangle \<Rightarrow> Triangle \<times> Triangle"

definition addTriangle :: "Triangle \<Rightarrow> Triangles \<Rightarrow> Triangles" where
  "addTriangle t s = s\<lparr>triangles := triangles s @ [t]\<rparr>"

definition vector_at :: "'a list \<Rightarrow> nat \<Rightarrow> 'a option" where
  "vector_at xs n = (if n < length xs then Some (xs ! n) else None)"

definition vector_assign :: "'a list \<Rightarrow> nat \<Rightarrow> 'a \<Rightarrow> 'a list option" where
  "vector_assign xs n v = (if n < length xs then Some (xs[n := v]) else None)"

text \<open>
  \<open>triangles[n] = triangles[n].improveEquilateral()\<close>: the call (which may assign to
  its receiver, the element itself) is evaluated before the assignment of its result.
\<close>

definition assign_adjusted :: "adjust \<Rightarrow> nat \<Rightarrow> Triangle list \<Rightarrow> Triangle list option" where
  "assign_adjusted f n ts =
     do {
       t \<leftarrow> vector_at ts n;
       case f t of (this', r) \<Rightarrow>
         do { ts' \<leftarrow> vector_assign ts n this'; vector_assign ts' n r }
     }"

text \<open>
  The body of the innermost loop.  The \<open>&&\<close> short-circuits: \<open>triangles[k]\<close> is read
  only when the first \<open>contains\<close> holds.
\<close>

definition connect_body :: "adjust \<Rightarrow> nat \<Rightarrow> nat \<Rightarrow> nat \<Rightarrow> Triangle list \<Rightarrow> Triangle list option" where
  "connect_body f i j k ts =
     do {
       ti \<leftarrow> vector_at ts i;
       tj \<leftarrow> vector_at ts j;
       c \<leftarrow> (if contains ti (p1 tj)
             then do { tk \<leftarrow> vector_at ts k; Some (contains ti (p1 tk)) }
             else Some False);
       if c then
         do {
           ts1 \<leftarrow> assign_adjusted f i ts;
           ts2 \<leftarrow> assign_adjusted f j ts1;
           assign_adjusted f k ts2
         }
       else Some ts
     }"

partial_function (option) connect_k ::
  "adjust \<Rightarrow> nat \<Rightarrow> nat \<Rightarrow> nat \<Rightarrow> Triangle list \<Rightarrow> Triangle list option" where
  "connect_k f i j k ts =
     (if k < length ts then
        (case connect_body f i j k ts of
           None \<Rightarrow> None
         | Some ts' \<Rightarrow> connect_k f i j (Suc k) ts')
      else Some ts)"

partial_function (option) connect_j ::
  "adjust \<Rightarrow> nat \<Rightarrow> nat \<Rightarrow> Triangle list \<Rightarrow> Triangle list option" where
  "connect_j f i j ts =
     (if j < length ts then
        (case connect_k f i j (Suc j) ts of
           None \<Rightarrow> None
         | Some ts' \<Rightarrow> connect_j f i (Suc j) ts')
      else Some ts)"

partial_function (option) connect_i ::
  "adjust \<Rightarrow> nat \<Rightarrow> Triangle list \<Rightarrow> Triangle list option" where
  "connect_i f i ts =
     (if i < length ts then
        (case connect_j f i (Suc i) ts of
           None \<Rightarrow> None
         | Some ts' \<Rightarrow> connect_i f (Suc i) ts')
      else Some ts)"

definition connectClosestPoints_with :: "adjust \<Rightarrow> Triangles \<Rightarrow> Triangles option" where
  "connectClosestPoints_with f s =
     (case connect_i f 0 (triangles s) of
        None \<Rightarrow> None
      | Some ts \<Rightarrow> Some (s\<lparr>triangles := ts\<rparr>))"

definition connectClosestPoints :: "Triangles \<Rightarrow> Triangles option" where
  "connectClosestPoints s = connectClosestPoints_with improveEquilateral_default s"

text \<open>The triples \<open>(i, j, k)\<close>, \<open>i < j < k < n\<close>, in the order the loops visit them.\<close>

definition triples :: "nat \<Rightarrow> (nat \<times> nat \<times> nat) list" where
  "triples n = concat (map (\<lambda>i. concat (map (\<lambda>j. map (\<lambda>k. (i, j, k)) [Suc j..<n]) [Suc i..<n])) [0..<n])"

subsection \<open>Vector access\<close>

lemma vector_at_in_range [simp]: "n < length xs \<Longrightarrow> vector_at xs n = Some (xs ! n)"
  by (simp add: vector_at_def)

lemma vector_assign_in_range [simp]: "n < length xs \<Longrightarrow> vector_assign xs n v = Some (xs[n := v])"
  by (simp add: vector_assign_def)

lemma vector_assign_length: "vector_assign xs n v = Some ys \<Longrightarrow> length ys = length xs"
  by (auto simp: vector_assign_def split: if_splits)

lemma assign_adjusted_in_range:
  "n < length ts \<Longrightarrow> assign_adjusted f n ts = Some (ts[n := snd (f (ts ! n))])"
  by (simp add: assign_adjusted_def split: prod.split)

lemma assign_adjusted_length:
  "assign_adjusted f n ts = Some ts' \<Longrightarrow> length ts' = length ts"
  by (auto simp: assign_adjusted_def vector_at_def vector_assign_def split: if_splits prod.splits)

lemma assign_adjusted_all:
  assumes "\<And>t. Q t \<Longrightarrow> Q (snd (f t))" and "list_all Q ts" and "n < length ts"
  shows "list_all Q (ts[n := snd (f (ts ! n))])"
  using assms by (auto simp: list_all_length nth_list_update)

subsection \<open>The loop body\<close>

lemma connect_body_length:
  "connect_body f i j k ts = Some ts' \<Longrightarrow> length ts' = length ts"
  by (auto simp: connect_body_def bind_eq_Some_conv dest!: assign_adjusted_length split: if_splits)

lemma connect_body_in_range:
  assumes "i < length ts" "j < length ts" "k < length ts"
  shows "connect_body f i j k ts =
    (if contains (ts ! i) (p1 (ts ! j)) \<and> contains (ts ! i) (p1 (ts ! k))
     then Some (let ts1 = ts[i := snd (f (ts ! i))]; ts2 = ts1[j := snd (f (ts1 ! j))]
                in ts2[k := snd (f (ts2 ! k))])
     else Some ts)"
  using assms by (simp add: connect_body_def assign_adjusted_in_range Let_def)

lemma connect_body_fixed:
  assumes "\<And>t. snd (f t) = t" "i < length ts" "j < length ts" "k < length ts"
  shows "connect_body f i j k ts = Some ts"
  using assms by (simp add: connect_body_in_range Let_def)

lemma connect_body_all:
  assumes "\<And>t. Q t \<Longrightarrow> Q (snd (f t))" and "list_all Q ts"
    and "i < length ts" "j < length ts" "k < length ts"
  shows "\<exists>ts'. connect_body f i j k ts = Some ts' \<and> length ts' = length ts \<and> list_all Q ts'"
  using assms by (simp add: connect_body_in_range Let_def assign_adjusted_all)

subsection \<open>The loops as folds over the index triples\<close>

lemma connect_k_fold:
  "length ts = n \<Longrightarrow> connect_k f i j k ts = fold_option (connect_body f i j) [k..<n] ts"
  by (rule for_loop_as_fold_option [where g = "connect_k f i j"])
    (rule connect_k.simps, erule connect_body_length)

lemma connect_k_length:
  assumes "connect_k f i j k ts = Some ts'"
  shows "length ts' = length ts"
proof -
  have "fold_option (connect_body f i j) [k..<length ts] ts = Some ts'"
    using assms by (simp add: connect_k_fold)
  then show ?thesis by (rule fold_option_length) (auto dest: connect_body_length)
qed

lemma connect_j_fold:
  "length ts = n \<Longrightarrow> connect_j f i j ts = fold_option (\<lambda>j. connect_k f i j (Suc j)) [j..<n] ts"
  by (rule for_loop_as_fold_option [where g = "connect_j f i"])
    (rule connect_j.simps, erule connect_k_length)

lemma connect_j_length:
  assumes "connect_j f i j ts = Some ts'"
  shows "length ts' = length ts"
proof -
  have "fold_option (\<lambda>j. connect_k f i j (Suc j)) [j..<length ts] ts = Some ts'"
    using assms by (simp add: connect_j_fold)
  then show ?thesis by (rule fold_option_length) (auto dest: connect_k_length)
qed

lemma connect_i_fold:
  "length ts = n \<Longrightarrow> connect_i f i ts = fold_option (\<lambda>i. connect_j f i (Suc i)) [i..<n] ts"
  by (rule for_loop_as_fold_option [where g = "connect_i f"])
    (rule connect_i.simps, erule connect_j_length)

lemma connect_i_as_triples:
  "connect_i f 0 ts = fold_option (\<lambda>(i, j, k). connect_body f i j k) (triples (length ts)) ts"
proof -
  let ?n = "length ts" and ?L = "\<lambda>xs. length xs = length ts"
  have k: "\<And>i j xs. ?L xs \<Longrightarrow> connect_k f i j (Suc j) xs = fold_option (connect_body f i j) [Suc j..<?n] xs"
    by (rule connect_k_fold)
  have j: "connect_j f i (Suc i) xs =
      fold_option (\<lambda>j. fold_option (connect_body f i j) [Suc j..<?n]) [Suc i..<?n] xs"
    if L: "?L xs" for i xs
  proof -
    have "connect_j f i (Suc i) xs = fold_option (\<lambda>j. connect_k f i j (Suc j)) [Suc i..<?n] xs"
      using L by (rule connect_j_fold)
    also have "\<dots> = fold_option (\<lambda>j. fold_option (connect_body f i j) [Suc j..<?n]) [Suc i..<?n] xs"
      by (rule fold_option_cong [where P = ?L]) (simp add: k, metis connect_k_length, rule L)
    finally show ?thesis .
  qed
  have "connect_i f 0 ts = fold_option (\<lambda>i. connect_j f i (Suc i)) [0..<?n] ts"
    by (rule connect_i_fold) simp
  also have "\<dots> = fold_option
      (\<lambda>i. fold_option (\<lambda>j. fold_option (connect_body f i j) [Suc j..<?n]) [Suc i..<?n]) [0..<?n] ts"
    by (rule fold_option_cong [where P = ?L]) (simp add: j, metis connect_j_length, simp)
  also have "\<dots> = fold_option (\<lambda>(i, j, k). connect_body f i j k) (triples ?n) ts"
    by (simp add: triples_def fold_option_concat fold_option_map)
  finally show ?thesis .
qed

lemma triples_in_range: "(i, j, k) \<in> set (triples n) \<longleftrightarrow> i < j \<and> j < k \<and> k < n"
  by (auto simp: triples_def image_iff)

lemma connect_i_Some:
  assumes "\<And>a xs. a \<in> set (triples (length ts)) \<Longrightarrow> P xs \<Longrightarrow> length xs = length ts \<Longrightarrow>
             \<exists>xs'. (case a of (i, j, k) \<Rightarrow> connect_body f i j k xs) = Some xs' \<and> P xs'"
    and "P ts"
  shows "\<exists>ts'. connect_i f 0 ts = Some ts' \<and> P ts' \<and> length ts' = length ts"
proof -
  let ?Q = "\<lambda>xs. P xs \<and> length xs = length ts"
  have step: "\<exists>xs'. (\<lambda>(i, j, k). connect_body f i j k) a xs = Some xs' \<and> ?Q xs'"
    if a: "a \<in> set (triples (length ts))" and q: "?Q xs" for a xs
  proof -
    obtain xs' where s: "(case a of (i, j, k) \<Rightarrow> connect_body f i j k xs) = Some xs'" "P xs'"
      using assms(1) a q by blast
    then have "length xs' = length xs" by (cases a) (auto dest: connect_body_length)
    with s q show ?thesis by (auto split: prod.splits)
  qed
  have "\<exists>ts'. fold_option (\<lambda>(i, j, k). connect_body f i j k) (triples (length ts)) ts = Some ts' \<and> ?Q ts'"
    by (rule fold_option_Some [where P = ?Q]) (use step assms(2) in auto)
  then show ?thesis by (simp add: connect_i_as_triples)
qed

lemma triples_sorted: "sorted_wrt (<) (triples n)"
  by (auto simp: triples_def sorted_wrt_concat sorted_wrt_map less_prod_def
      intro: sorted_wrt_mono_rel [OF _ sorted_wrt_upt])

lemma triples_cases:
  assumes "a \<in> set (triples n)"
  obtains i j k where "a = (i, j, k)" and "i < j" and "j < k" and "k < n"
proof -
  obtain i j k where a: "a = (i, j, k)" by (rule prod_cases3)
  with assms have "i < j \<and> j < k \<and> k < n" by (simp add: triples_in_range)
  with a that show thesis by blast
qed

lemma connect_body_triple_Some:
  assumes "a \<in> set (triples (length xs))"
  shows "\<exists>xs'. (case a of (i, j, k) \<Rightarrow> connect_body f i j k xs) = Some xs'"
  using assms by (auto elim!: triples_cases simp: connect_body_in_range)

lemma connect_i_fixed:
  assumes "\<And>t. snd (f t) = t"
  shows "connect_i f 0 ts = Some ts"
proof -
  have "\<exists>ts'. connect_i f 0 ts = Some ts' \<and> ts' = ts \<and> length ts' = length ts"
  proof (rule connect_i_Some)
    fix a xs
    assume "a \<in> set (triples (length ts))" and "xs = ts"
    then show "\<exists>xs'. (case a of (i, j, k) \<Rightarrow> connect_body f i j k xs) = Some xs' \<and> xs' = ts"
      by (auto elim!: triples_cases simp: connect_body_fixed assms)
  qed simp
  then show ?thesis by simp
qed

lemma addTriangle_foldl:
  "triangles (foldl (\<lambda>s t. addTriangle t s) s0 ts) = triangles s0 @ ts"
  by (induction ts arbitrary: s0) (simp_all add: addTriangle_def)

subsection \<open>Properties of \<open>connectClosestPoints\<close>\<close>

text \<open>
  C8. The loop body fails (undefined behaviour of an out-of-range
  \<open>operator[]\<close>, \<open>None\<close>) exactly when \<open>i\<close> or \<open>j\<close> is out of range, or
  when the first \<open>contains\<close> test holds and \<open>k\<close> is out of range; because of the
  short-circuit \<open>&&\<close>, an out-of-range \<open>k\<close> is harmless when that test fails.
\<close>

theorem connect_body_None_iff:
  "connect_body f i j k ts = None \<longleftrightarrow>
     length ts \<le> i \<or> length ts \<le> j
     \<or> (i < length ts \<and> j < length ts \<and> contains (ts ! i) (p1 (ts ! j)) \<and> length ts \<le> k)"
  by (auto simp: connect_body_def vector_at_def assign_adjusted_in_range)

text \<open>
  C4. For every adjusting call, the all-triples pass terminates and never indexes the
  vector out of range: it returns \<open>Some\<close> set, of the same size.
\<close>

theorem connectClosestPoints_with_returns:
  "\<exists>s'. connectClosestPoints_with f s = Some s' \<and> length (triangles s') = length (triangles s)"
proof -
  obtain ts' where "connect_i f 0 (triangles s) = Some ts'" "length ts' = length (triangles s)"
    using connect_i_Some [where P = "\<lambda>_. True" and f = f and ts = "triangles s"]
      connect_body_triple_Some by fastforce
  then show ?thesis by (simp add: connectClosestPoints_with_def)
qed

text \<open>
  C5. The source's pass, with \<open>improveEquilateral()\<close> as the adjusting call, leaves
  every set of triangles unchanged.
\<close>

theorem connectClosestPoints_unchanged: "connectClosestPoints s = Some s"
  by (simp add: connectClosestPoints_def connectClosestPoints_with_def connect_i_fixed
      improveEquilateral_default_fixed)

text \<open>
  C7. The three nested loops run the body once for each triple \<open>i < j < k < n\<close>, in
  increasing lexicographic order, where \<open>n\<close> is the size of the set when the pass starts.
\<close>

theorem connectClosestPoints_scan_order:
  "connectClosestPoints_with f s =
     (case fold_option (\<lambda>(i, j, k). connect_body f i j k) (triples (length (triangles s))) (triangles s) of
        None \<Rightarrow> None
      | Some ts \<Rightarrow> Some (s\<lparr>triangles := ts\<rparr>))
   \<and> set (triples n) = {(i, j, k). i < j \<and> j < k \<and> k < n}
   \<and> sorted_wrt (<) (triples n)"
  by (auto simp: connectClosestPoints_with_def connect_i_as_triples triples_in_range triples_sorted)

text \<open>
  C23. A property of single triangles that the adjusting call keeps (in the triangle it
  returns) holds for every triangle of the set after the pass if it held before.
\<close>

theorem connectClosestPoints_with_preserves:
  assumes "\<And>t. Q t \<Longrightarrow> Q (snd (f t))" and "list_all Q (triangles s)"
  shows "\<exists>s'. connectClosestPoints_with f s = Some s' \<and> list_all Q (triangles s')"
proof -
  have "\<exists>ts'. connect_i f 0 (triangles s) = Some ts' \<and> list_all Q ts' \<and> length ts' = length (triangles s)"
  proof (rule connect_i_Some)
    fix a xs
    assume a: "a \<in> set (triples (length (triangles s)))" and q: "list_all Q xs"
      and l: "length xs = length (triangles s)"
    from a obtain i j k where ijk: "a = (i, j, k)" "i < j" "j < k" "k < length (triangles s)"
      by (rule triples_cases)
    then have "i < length xs" "j < length xs" "k < length xs" using l by simp_all
    from connect_body_all [where Q = Q and f = f, OF assms(1) q this]
    show "\<exists>xs'. (case a of (i, j, k) \<Rightarrow> connect_body f i j k xs) = Some xs' \<and> list_all Q xs'"
      using ijk(1) by auto
  qed (rule assms(2))
  then show ?thesis by (auto simp: connectClosestPoints_with_def)
qed

lemma connectClosestPoints_with_preserves_witness:
  "list_all (\<lambda>t. p1 t = Point3D 0 0 0)
       (triangles \<lparr>triangles = [Triangle_init (Point3D 0 0 0) (Point3D 1 0 0) (Point3D 0 1 0)]\<rparr>)
   \<and> (\<exists>s'. connectClosestPoints_with improveEquilateral_default
            \<lparr>triangles = [Triangle_init (Point3D 0 0 0) (Point3D 1 0 0) (Point3D 0 1 0)]\<rparr> = Some s'
          \<and> list_all (\<lambda>t. p1 t = Point3D 0 0 0) (triangles s'))"
proof -
  let ?Q = "\<lambda>t. p1 t = Point3D 0 0 0"
  let ?s = "\<lparr>triangles = [Triangle_init (Point3D 0 0 0) (Point3D 1 0 0) (Point3D 0 1 0)]\<rparr>"
  have h1: "\<And>t. ?Q t \<Longrightarrow> ?Q (snd (improveEquilateral_default t))"
    by (simp add: improveEquilateral_default_fixed)
  have h2: "list_all ?Q (triangles ?s)" by simp
  show ?thesis using h1 h2 connectClosestPoints_with_preserves [of ?Q improveEquilateral_default ?s, OF h1 h2]
    by blast
qed

text \<open>
  C24. If no triangle of the set contains the first corner of a later one, the pass
  changes nothing, whatever the adjusting call does.
\<close>

theorem connectClosestPoints_with_no_containment:
  assumes "\<forall>i j. i < j \<longrightarrow> j < length (triangles s) \<longrightarrow>
             \<not> contains (triangles s ! i) (p1 (triangles s ! j))"
  shows "connectClosestPoints_with f s = Some s"
proof -
  have "\<exists>ts'. connect_i f 0 (triangles s) = Some ts' \<and> ts' = triangles s \<and> length ts' = length (triangles s)"
  proof (rule connect_i_Some)
    fix a xs
    assume "a \<in> set (triples (length (triangles s)))" and "xs = triangles s"
    with assms show "\<exists>xs'. (case a of (i, j, k) \<Rightarrow> connect_body f i j k xs) = Some xs' \<and> xs' = triangles s"
      by (auto elim!: triples_cases simp: connect_body_in_range)
  qed simp
  then show ?thesis by (simp add: connectClosestPoints_with_def)
qed

lemma connectClosestPoints_with_no_containment_witness:
  "\<not> contains (Triangle_init (Point3D 0 0 0) (Point3D 4 0 0) (Point3D 0 4 0)) (Point3D 0 0 0)
   \<and> connectClosestPoints_with (\<lambda>t. (t, t\<lparr>p1 := Point3D 1 1 0\<rparr>))
       \<lparr>triangles = replicate 3 (Triangle_init (Point3D 0 0 0) (Point3D 4 0 0) (Point3D 0 4 0))\<rparr>
     = Some \<lparr>triangles = replicate 3 (Triangle_init (Point3D 0 0 0) (Point3D 4 0 0) (Point3D 0 4 0))\<rparr>"
proof -
  let ?t = "Triangle_init (Point3D 0 0 0) (Point3D 4 0 0) (Point3D 0 4 0)"
  have corner: "\<not> contains ?t (Point3D 0 0 0)" by (simp add: triangle_eval)
  have h: "\<forall>i j. i < j \<longrightarrow> j < length (triangles \<lparr>triangles = replicate 3 ?t\<rparr>) \<longrightarrow>
      \<not> contains (triangles \<lparr>triangles = replicate 3 ?t\<rparr> ! i) (p1 (triangles \<lparr>triangles = replicate 3 ?t\<rparr> ! j))"
    using corner by simp
  show ?thesis
    using corner connectClosestPoints_with_no_containment [OF h, of "\<lambda>t. (t, t\<lparr>p1 := Point3D 1 1 0\<rparr>)"]
    by simp
qed

end
