(* ===== verification/Console_Output.thy ===== *)
theory Console_Output
  imports Triangle_Model
begin

section \<open>Console output: the \<open>print\<close> methods\<close>

text \<open>
  Models \<open>Point3D::print\<close> (lines 40--42) and \<open>Triangle::print\<close> (lines 163--168) of
  \<open>src/main.cpp\<close> as the text they write to \<open>std::cout\<close>.  How \<open>operator<<\<close>
  renders a \<open>double\<close> is the parameter \<open>fmt\<close>, the interface between the kernel and
  the stream library; the library's default rendering is \<open>cout_double\<close> of
  \<open>Double_Format\<close>.  \<open>std::endl\<close> writes a newline (its flush is not observable in
  the text).
\<close>

type_synonym double_fmt = "scalar \<Rightarrow> string"

definition endl :: string where
  "endl = [CHR 0x0A]"

definition Point3D_print :: "double_fmt \<Rightarrow> Point3D \<Rightarrow> string" where
  "Point3D_print fmt p =
     ''Point('' @ fmt (x p) @ '', '' @ fmt (y p) @ '', '' @ fmt (z p) @ '')'' @ endl"

definition Triangle_print :: "double_fmt \<Rightarrow> Triangle \<Rightarrow> string" where
  "Triangle_print fmt t =
     ''Triangle points:'' @ endl @ Point3D_print fmt (p1 t) @ Point3D_print fmt (p2 t)
     @ Point3D_print fmt (p3 t)"

text \<open>A text made of whole lines: each line followed by \<open>std::endl\<close>.\<close>

definition text_lines :: "string list \<Rightarrow> string" where
  "text_lines ls = concat (map (\<lambda>l. l @ endl) ls)"

subsection \<open>Shared lemmas\<close>

lemma text_lines_simps [simp]:
  "text_lines [] = []"
  "text_lines (l # ls) = l @ endl @ text_lines ls"
  by (simp_all add: text_lines_def)

lemma text_lines_append: "text_lines (ls @ ms) = text_lines ls @ text_lines ms"
  by (simp add: text_lines_def)

lemma Triangle_print_lines:
  "Triangle_print fmt t = text_lines
     [''Triangle points:'',
      ''Point('' @ fmt (x (p1 t)) @ '', '' @ fmt (y (p1 t)) @ '', '' @ fmt (z (p1 t)) @ '')'',
      ''Point('' @ fmt (x (p2 t)) @ '', '' @ fmt (y (p2 t)) @ '', '' @ fmt (z (p2 t)) @ '')'',
      ''Point('' @ fmt (x (p3 t)) @ '', '' @ fmt (y (p3 t)) @ '', '' @ fmt (z (p3 t)) @ '')'']"
  by (simp add: Triangle_print_def Point3D_print_def)

end
