(* ===== verification/Double_Format.thy ===== *)
theory Double_Format
  imports Prelude
begin

section \<open>How \<open>std::cout\<close> writes a \<open>double\<close>\<close>

text \<open>
  \<open>operator<<(double)\<close> of an \<open>std::ostream\<close> with the default flags and precision
  (the state of \<open>std::cout\<close> in \<open>src/main.cpp\<close>, which never changes them) writes
  what \<open>printf("%.6g")\<close> writes (C++ standard, [facet.num.put.virtuals]).  With
  \<open>P = 6\<close> significant digits and \<open>X\<close> the decimal exponent of the value rounded to
  \<open>P\<close> digits: if \<open>-4 \<le> X < P\<close> the value is written in fixed notation with
  \<open>P - 1 - X\<close> decimals, otherwise in exponent notation with \<open>P - 1\<close> decimals and an
  exponent of at least two digits; then trailing zeros of the fraction are removed, and
  the decimal point with them when no fraction is left.

  This is a model of the standard library, not of the repository's code.  It rounds
  the exact real (\<open>double\<close> is modelled as \<open>real\<close>), halves upwards; \<open>printf\<close> rounds
  the binary value, so the two can differ only on a value within one unit of the last
  place of a rounding boundary.
\<close>

definition digit_char :: "nat \<Rightarrow> char" where
  "digit_char d = ''0123456789'' ! d"

fun digits_of :: "nat \<Rightarrow> string" where
  "digits_of n = (if n < 10 then [digit_char n] else digits_of (n div 10) @ [digit_char (n mod 10)])"

declare digits_of.simps [simp del]

definition pad_digits :: "nat \<Rightarrow> nat \<Rightarrow> string" where
  "pad_digits w n = replicate (w - length (digits_of n)) (CHR ''0'') @ digits_of n"

definition strip_zeros :: "string \<Rightarrow> string" where
  "strip_zeros s = rev (dropWhile (\<lambda>c. c = CHR ''0'') (rev s))"

definition point_part :: "string \<Rightarrow> string" where
  "point_part f = (if f = [] then [] else CHR ''.'' # f)"

definition scale10 :: "real \<Rightarrow> int \<Rightarrow> real" where
  "scale10 a k = (if 0 \<le> k then a * 10 ^ nat k else a / 10 ^ nat (- k))"

text \<open>The exponent of a positive value once rounded to six significant digits.\<close>

definition exp10 :: "real \<Rightarrow> int" where
  "exp10 a = (let e = \<lfloor>log 10 a\<rfloor> in if 10 ^ 6 \<le> round (scale10 a (5 - e)) then e + 1 else e)"

definition fixed_g :: "nat \<Rightarrow> real \<Rightarrow> string" where
  "fixed_g d a =
     (let r = nat (round (scale10 a (int d)))
      in digits_of (r div 10 ^ d) @ point_part (strip_zeros (pad_digits d (r mod 10 ^ d))))"

definition sci_g :: "int \<Rightarrow> real \<Rightarrow> string" where
  "sci_g e a =
     (let ds = digits_of (nat (round (scale10 a (5 - e))))
      in hd ds # point_part (strip_zeros (tl ds)) @ CHR ''e'' # (if e < 0 then CHR ''-'' else CHR ''+'')
         # pad_digits 2 (nat \<bar>e\<bar>))"

definition cout_double :: "scalar \<Rightarrow> string" where
  "cout_double v =
     (if v < 0 then ''-'' else []) @
     (if v = 0 then ''0''
      else let a = \<bar>v\<bar>; e = exp10 a
           in if - 4 \<le> e \<and> e < 6 then fixed_g (nat (5 - e)) a else sci_g e a)"

subsection \<open>Evaluation\<close>

lemma digits_of_digit [simp]: "n < 10 \<Longrightarrow> digits_of n = [digit_char n]"
  by (subst digits_of.simps) simp

lemma exp10_eq:
  assumes "10 powr of_int k \<le> a" and "a < 10 powr of_int (k + 1)"
    and "round (scale10 a (5 - k)) < 10 ^ 6"
  shows "exp10 a = k"
proof -
  have "0 < a" using assms(1) powr_gt_zero [of 10 "of_int k"] by linarith
  then have "\<lfloor>log 10 a\<rfloor> = k" using assms(1,2) by (simp add: floor_log_eq_powr_iff)
  then show ?thesis using assms(3) by (simp add: exp10_def)
qed

lemma cout_double_digit:
  assumes "0 < n" and "n < 10"
  shows "cout_double (real n) = [digit_char n]"
proof -
  have "scale10 (real n) 5 = of_int (int n * 10 ^ 5)" by (simp add: scale10_def)
  then have r: "round (scale10 (real n) 5) = int n * 10 ^ 5" by (simp only: round_of_int)
  have "exp10 (real n) = 0"
  proof (rule exp10_eq)
    show "10 powr of_int 0 \<le> real n" and "real n < 10 powr of_int (0 + 1)" using assms by simp_all
    show "round (scale10 (real n) (5 - 0)) < 10 ^ 6" using r assms by simp
  qed
  with r show ?thesis using assms
    by (simp add: cout_double_def fixed_g_def pad_digits_def strip_zeros_def point_part_def
        Let_def nat_mult_distrib digit_char_def)
qed

lemma cout_double_zero: "cout_double 0 = ''0''"
  by (simp add: cout_double_def)

end
