(* ===== verification/Demo_Main.thy ===== *)
theory Demo_Main
  imports Triangle_Set Console_Output Double_Format
begin

section \<open>The demonstration driver \<open>main\<close>\<close>

text \<open>
  Models \<open>main()\<close> of \<open>src/main.cpp\<close> (lines 195--210): the values it prints are the
  fields of the record \<open>main_run\<close>, and \<open>main_stdout\<close> is the text it writes to
  \<open>std::cout\<close>, given the rendering \<open>fmt\<close> of a \<open>double\<close>.  \<open>main\<close> builds the triangle
  \<open>(0,0,6), (1,0,0), (0,3,0)\<close>, prints its deviation, calls \<open>improveEquilateral()\<close>
  with the default arguments (in place), prints the returned triangle, and prints the
  deviation of the triangle after the call.  With \<open>fmt = cout_double\<close> the text is
  the program's exact output.
\<close>

record MainOutput =
  dev_before :: scalar
  printed_triangle :: Triangle
  dev_after :: scalar

definition main_run :: MainOutput where
  "main_run =
     (let a = Point3D 0 0 6; b = Point3D 1 0 0; c = Point3D 0 3 0;
          triangle = Triangle_init a b c;
          deviation = isEquilateral triangle;
          (triangle', printed) = improveEquilateral_default triangle;
          deviation' = isEquilateral triangle'
      in \<lparr>dev_before = deviation, printed_triangle = printed, dev_after = deviation'\<rparr>)"

definition main_stdout :: "double_fmt \<Rightarrow> string" where
  "main_stdout fmt =
     (let r = main_run
      in ''Before deviation from equilateral: '' @ fmt (dev_before r) @ endl
         @ Triangle_print fmt (printed_triangle r)
         @ ''After deviation from equilateral: '' @ fmt (dev_after r) @ endl)"

lemma sqrt_ratio_10_45: "sqrt 10 / sqrt 45 = sqrt 2 / (3::real)"
proof -
  have s45: "sqrt (45::real) = 3 * sqrt 5"
    by (rule real_sqrt_unique) (simp_all add: power_mult_distrib)
  have s10: "sqrt (10::real) = sqrt 2 * sqrt 5"
    by (simp only: real_sqrt_mult [symmetric]) simp
  have "sqrt (5::real) \<noteq> 0" by simp
  then show ?thesis by (simp add: s45 s10)
qed

lemma demo_deviation:
  "isEquilateral (Triangle_init (Point3D 0 0 6) (Point3D 1 0 0) (Point3D 0 3 0)) = 1 - sqrt 2 / 3"
proof -
  have "isEquilateral (Triangle_init (Point3D 0 0 6) (Point3D 1 0 0) (Point3D 0 3 0))
        = (sqrt 45 - sqrt 10) / sqrt 45"
    by (simp add: isEquilateral_sides distanceTo_def max_def min_def)
  also have "\<dots> = 1 - sqrt 10 / sqrt 45" by (simp add: diff_divide_distrib)
  finally show ?thesis by (simp add: sqrt_ratio_10_45)
qed

lemma cout_double_deviation: "cout_double (1 - sqrt 2 / 3) = ''0.528595''"
proof -
  let ?v = "1 - sqrt 2 / 3 :: real"
  have lo: "14142135 / 10000000 < sqrt (2::real)" by (rule real_less_rsqrt) (simp add: power_divide)
  have hi: "sqrt (2::real) < 14142136 / 10000000" by (rule real_less_lsqrt) (simp_all add: power_divide)
  have r: "round (scale10 ?v 6) = 528595"
  proof (rule round_unique)
    show "scale10 ?v 6 - 1 / 2 < of_int 528595" using lo by (simp add: scale10_def)
    show "of_int 528595 \<le> scale10 ?v 6 + 1 / 2" using hi by (simp add: scale10_def)
  qed
  have e: "exp10 ?v = - 1"
  proof (rule exp10_eq)
    show "10 powr of_int (- 1) \<le> ?v" using hi by (simp add: powr_minus)
    show "?v < 10 powr of_int (- 1 + 1)" using lo by simp
    show "round (scale10 ?v (5 - - 1)) < 10 ^ 6" using r by simp
  qed
  have pos: "0 < ?v" using hi by simp
  have d: "digits_of 528595 = ''528595''" by (simp add: digits_of.simps digit_char_def)
  have f: "fixed_g 6 ?v = ''0.528595''"
    using r by (simp add: fixed_g_def pad_digits_def strip_zeros_def point_part_def d digit_char_def)
  show ?thesis using e pos f by (simp add: cout_double_def)
qed
lemma cout_double_demo_coordinates:
  "cout_double 1 = ''1''" "cout_double 3 = ''3''" "cout_double 6 = ''6''"
  using cout_double_digit [of 1] cout_double_digit [of 3] cout_double_digit [of 6]
  by (simp_all add: digit_char_def)

subsection \<open>Properties of the driver\<close>

text \<open>
  C10. Whatever the rendering of a \<open>double\<close>, \<open>main\<close> writes exactly six lines: the
  deviation \<open>1 - \<surd>2 / 3\<close>, the header and the three unchanged corners of the
  triangle, and the same deviation again.
\<close>

theorem main_stdout_lines:
  "main_stdout fmt = text_lines
     [''Before deviation from equilateral: '' @ fmt (1 - sqrt 2 / 3),
      ''Triangle points:'',
      ''Point('' @ fmt 0 @ '', '' @ fmt 0 @ '', '' @ fmt 6 @ '')'',
      ''Point('' @ fmt 1 @ '', '' @ fmt 0 @ '', '' @ fmt 0 @ '')'',
      ''Point('' @ fmt 0 @ '', '' @ fmt 3 @ '', '' @ fmt 0 @ '')'',
      ''After deviation from equilateral: '' @ fmt (1 - sqrt 2 / 3)]"
  by (simp add: main_stdout_def main_run_def improveEquilateral_default_fixed demo_deviation
      Triangle_print_lines)

text \<open>
  C31. With the default formatting of \<open>std::cout\<close> (six significant digits),
  \<open>main\<close> writes exactly these six lines: the deviation \<open>1 - \<surd>2 / 3\<close> rounds to
  \<open>0.528595\<close>, and the integer coordinates print without a decimal point.
\<close>

theorem main_stdout_exact:
  "main_stdout cout_double = text_lines
     [''Before deviation from equilateral: 0.528595'',
      ''Triangle points:'',
      ''Point(0, 0, 6)'',
      ''Point(1, 0, 0)'',
      ''Point(0, 3, 0)'',
      ''After deviation from equilateral: 0.528595'']"
  by (simp add: main_stdout_def main_run_def improveEquilateral_default_fixed demo_deviation
      Triangle_print_lines cout_double_deviation cout_double_zero cout_double_demo_coordinates)

end
