(* ===== verification/Connect_Machine.thy ===== *)
theory Connect_Machine
  imports Triangle_Set "HOL-Library.Word"
begin

section \<open>\<open>connectClosestPoints\<close> as a machine with \<open>int\<close> counters\<close>

text \<open>
  A small-step model of \<open>Triangles::connectClosestPoints\<close> (lines 179--191 of
  \<open>src/main.cpp\<close>) that keeps what the loop model of \<open>Triangle_Set\<close> abstracts away:
  the counters \<open>i\<close>, \<open>j\<close>, \<open>k\<close> are C++ \<open>int\<close>s, 32-bit words whose \<open>++\<close> wraps,
  and each test \<open>i < triangles.size()\<close> converts the \<open>int\<close> to the 64-bit
  \<open>size_t\<close> (sign extension, \<open>scast\<close>) before comparing.  The state is the
  object's vector together with the three counters and the loop test the control is
  at; one step is one loop test with what follows it up to the next test.
\<close>

type_synonym int32 = "32 word"
type_synonym size_t = "64 word"

datatype loc = Test_i | Test_j | Test_k | Exit

record ConnectState = Triangles +
  pc :: loc
  ci :: int32
  cj :: int32
  ck :: int32

text \<open>\<open>triangles.size()\<close> and the comparison \<open>c < triangles.size()\<close> of an \<open>int\<close>.\<close>

definition size_of :: "'a list \<Rightarrow> size_t" where
  "size_of xs = of_nat (length xs)"

definition below_size :: "int32 \<Rightarrow> 'a list \<Rightarrow> bool" where
  "below_size c xs = ((scast c :: size_t) < size_of xs)"

text \<open>The index \<open>operator[]\<close> receives: the counter converted to \<open>size_t\<close>.\<close>

definition idx :: "int32 \<Rightarrow> nat" where
  "idx c = unat (scast c :: size_t)"

definition connect_start :: "Triangle list \<Rightarrow> ConnectState" where
  "connect_start ts = \<lparr>triangles = ts, pc = Test_i, ci = 0, cj = 0, ck = 0\<rparr>"

text \<open>
  The steps.  \<open>enter_j\<close>: the test of the \<open>i\<close> loop holds, \<open>int j = i + 1\<close>;
  \<open>exit_i\<close>: it fails and the method returns; \<open>enter_k\<close>: the test of the \<open>j\<close> loop
  holds, \<open>int k = j + 1\<close>; \<open>next_i\<close>: it fails, \<open>i++\<close>; \<open>body\<close>: the test of the
  \<open>k\<close> loop holds, the body runs (it is stuck where it would index out of range) and
  \<open>k++\<close>; \<open>next_j\<close>: that test fails, \<open>j++\<close>.
\<close>

inductive connect_step :: "adjust \<Rightarrow> ConnectState \<Rightarrow> ConnectState \<Rightarrow> bool" for f where
  enter_j: "pc s = Test_i \<Longrightarrow> below_size (ci s) (triangles s) \<Longrightarrow>
    connect_step f s (s\<lparr>pc := Test_j, cj := ci s + 1\<rparr>)"
| exit_i: "pc s = Test_i \<Longrightarrow> \<not> below_size (ci s) (triangles s) \<Longrightarrow>
    connect_step f s (s\<lparr>pc := Exit\<rparr>)"
| enter_k: "pc s = Test_j \<Longrightarrow> below_size (cj s) (triangles s) \<Longrightarrow>
    connect_step f s (s\<lparr>pc := Test_k, ck := cj s + 1\<rparr>)"
| next_i: "pc s = Test_j \<Longrightarrow> \<not> below_size (cj s) (triangles s) \<Longrightarrow>
    connect_step f s (s\<lparr>pc := Test_i, ci := ci s + 1\<rparr>)"
| body: "pc s = Test_k \<Longrightarrow> below_size (ck s) (triangles s) \<Longrightarrow>
    connect_body f (idx (ci s)) (idx (cj s)) (idx (ck s)) (triangles s) = Some ts' \<Longrightarrow>
    connect_step f s (s\<lparr>triangles := ts', ck := ck s + 1\<rparr>)"
| next_j: "pc s = Test_k \<Longrightarrow> \<not> below_size (ck s) (triangles s) \<Longrightarrow>
    connect_step f s (s\<lparr>pc := Test_j, cj := cj s + 1\<rparr>)"

text \<open>
  The well-formedness of a state of a pass over \<open>n\<close> triangles: the vector keeps its
  size and the counters are the ordered indices \<open>0 \<le> i < j < k \<le> n\<close> of the
  loops that are running.
\<close>

definition counters_ok :: "nat \<Rightarrow> ConnectState \<Rightarrow> bool" where
  "counters_ok n s =
     (length (triangles s) = n \<and> 0 \<le> sint (ci s) \<and>
      (case pc s of
         Test_i \<Rightarrow> sint (ci s) \<le> int n
       | Test_j \<Rightarrow> sint (ci s) < sint (cj s) \<and> sint (cj s) \<le> int n
       | Test_k \<Rightarrow> sint (ci s) < sint (cj s) \<and> sint (cj s) < sint (ck s) \<and> sint (ck s) \<le> int n
       | Exit \<Rightarrow> sint (ci s) = int n))"

inductive_cases connect_stepE: "connect_step f s s'"

subsection \<open>Counter arithmetic\<close>

lemma unat_scast_nonneg:
  fixes c :: int32
  assumes "0 \<le> sint c"
  shows "unat (scast c :: size_t) = nat (sint c)"
proof -
  have "sint c < 2 ^ 31" using sint_range_size [of c] by (simp add: word_size)
  then have "take_bit 64 (sint c) = sint c" using assms by (simp add: take_bit_int_eq_self)
  then have "uint (word_of_int (sint c) :: size_t) = sint c"
    by (simp only: uint_word_of_int_eq len_of_numeral_defs) simp
  then show ?thesis by (simp only: scast_eq unat_eq_nat_uint)
qed

lemma idx_nonneg: "0 \<le> sint c \<Longrightarrow> idx c = nat (sint c)"
  by (simp add: idx_def unat_scast_nonneg)

lemma below_size_nonneg_size_t:
  assumes "0 \<le> sint c" and "length xs < 2 ^ 64"
  shows "below_size c xs \<longleftrightarrow> sint c < int (length xs)"
proof -
  have "unat (size_of xs) = length xs"
    using assms(2) by (simp add: size_of_def unat_of_nat)
  then have "below_size c xs \<longleftrightarrow> nat (sint c) < length xs"
    by (simp add: below_size_def word_less_nat_alt unat_scast_nonneg assms(1))
  then show ?thesis using assms(1) by linarith
qed

lemma below_size_nonneg:
  assumes "0 \<le> sint c" and "length xs < 2 ^ 31"
  shows "below_size c xs \<longleftrightarrow> sint c < int (length xs)"
  using assms by (intro below_size_nonneg_size_t) simp_all

lemma sint_incr:
  fixes c :: int32
  assumes "sint c < 2 ^ 31 - 1"
  shows "sint (c + 1) = sint c + 1"
proof -
  have "- (2 ^ 31) \<le> sint c" using sint_ge [of c] by simp
  then show ?thesis using assms by (simp add: sint_word_add signed_take_bit_int_eq_self)
qed

lemma sint_incr_below:
  fixes c :: int32
  assumes "sint c < int n" and "n < 2 ^ 31"
  shows "sint (c + 1) = sint c + 1"
proof -
  have "int n < int (2 ^ 31)" using assms(2) by (simp only: of_nat_less_iff)
  then have "int n < 2 ^ 31" by simp
  with assms(1) show ?thesis by (intro sint_incr) linarith
qed

lemma connect_body_Some_in_range:
  "i < length ts \<Longrightarrow> j < length ts \<Longrightarrow> k < length ts \<Longrightarrow> \<exists>ts'. connect_body f i j k ts = Some ts'"
  by (auto simp: connect_body_in_range)

lemmas counter_simps = below_size_nonneg idx_nonneg sint_incr_below

subsection \<open>The state invariant\<close>

lemma counters_ok_start: "counters_ok (length ts) (connect_start ts)"
  by (simp add: counters_ok_def connect_start_def)

lemma connect_step_counters_ok:
  assumes "connect_step f s s'" and "counters_ok n s" and "n < 2 ^ 31"
  shows "counters_ok n s'"
  using assms
proof (induction rule: connect_step.induct)
  case (enter_j s)
  then show ?case by (auto simp: counters_ok_def counter_simps)
next
  case (exit_i s)
  then show ?case by (auto simp: counters_ok_def counter_simps)
next
  case (enter_k s)
  then show ?case by (auto simp: counters_ok_def counter_simps)
next
  case (next_i s)
  then show ?case by (auto simp: counters_ok_def counter_simps)
next
  case (body s ts')
  then show ?case by (auto simp: counters_ok_def counter_simps dest: connect_body_length)
next
  case (next_j s)
  then show ?case by (auto simp: counters_ok_def counter_simps)
qed

lemma connect_steps_counters_ok:
  assumes "(connect_step f)\<^sup>*\<^sup>* s s'" and "counters_ok n s" and "n < 2 ^ 31"
  shows "counters_ok n s'"
  using assms by (induction rule: rtranclp_induct) (auto intro: connect_step_counters_ok)

subsection \<open>Running the loops\<close>

text \<open>
  Each loop of the machine, run from its test, performs the corresponding loop of
  \<open>Triangle_Set\<close>: the \<open>k\<close> loop ends at the test of the \<open>j\<close> loop with \<open>j\<close> incremented,
  and so on.  The proofs go by induction on the distance of the counter to the size.
\<close>

lemma run_k:
  assumes "n - nat (sint (ck s)) = d" and "pc s = Test_k" and "counters_ok n s" and "n < 2 ^ 31"
    and "connect_k f (idx (ci s)) (idx (cj s)) (idx (ck s)) (triangles s) = Some ts'"
  shows "\<exists>s'. (connect_step f)\<^sup>*\<^sup>* s s' \<and> pc s' = Test_j \<and> ci s' = ci s
           \<and> sint (cj s') = sint (cj s) + 1 \<and> triangles s' = ts'"
  using assms
proof (induction d arbitrary: s)
  case 0
  then have ok: "length (triangles s) = n" "0 \<le> sint (ci s)" "sint (ci s) < sint (cj s)"
      "sint (cj s) < sint (ck s)" "sint (ck s) = int n"
    by (auto simp: counters_ok_def)
  then have nb: "\<not> below_size (ck s) (triangles s)" using "0.prems"(4) by (simp add: counter_simps)
  have "ts' = triangles s"
    using "0.prems"(5) ok by (subst (asm) connect_k.simps) (simp add: counter_simps)
  moreover have "connect_step f s (s\<lparr>pc := Test_j, cj := cj s + 1\<rparr>)"
    using "0.prems"(2) nb by (rule next_j)
  moreover have "sint (cj s + 1) = sint (cj s) + 1"
    using ok "0.prems"(4) by (intro sint_incr_below [where n = n]) simp_all
  ultimately show ?case by (intro exI [of _ "s\<lparr>pc := Test_j, cj := cj s + 1\<rparr>"]) simp
next
  case (Suc d)
  then have ok: "length (triangles s) = n" "0 \<le> sint (ci s)" "sint (ci s) < sint (cj s)"
      "sint (cj s) < sint (ck s)" "sint (ck s) < int n"
    by (auto simp: counters_ok_def)
  then have b: "below_size (ck s) (triangles s)" using Suc.prems(4) by (simp add: counter_simps)
  have idxs: "idx (ci s) < length (triangles s)" "idx (cj s) < length (triangles s)"
      "idx (ck s) < length (triangles s)"
    using ok by (simp_all add: counter_simps)
  obtain ts1 where body: "connect_body f (idx (ci s)) (idx (cj s)) (idx (ck s)) (triangles s) = Some ts1"
    using connect_body_Some_in_range [OF idxs] by blast
  have rest: "connect_k f (idx (ci s)) (idx (cj s)) (Suc (idx (ck s))) ts1 = Some ts'"
    using Suc.prems(5) idxs(3) body by (subst (asm) connect_k.simps) simp
  let ?s1 = "s\<lparr>triangles := ts1, ck := ck s + 1\<rparr>"
  have step: "connect_step f s ?s1" using Suc.prems(2) b body by (rule connect_step.body)
  have inc: "sint (ck s + 1) = sint (ck s) + 1"
    using ok Suc.prems(4) by (intro sint_incr_below [where n = n]) simp_all
  have ok1: "counters_ok n ?s1" using step Suc.prems(3,4) by (rule connect_step_counters_ok)
  have "n - nat (sint (ck ?s1)) = d" using Suc.prems(1) inc ok by simp
  moreover have "connect_k f (idx (ci ?s1)) (idx (cj ?s1)) (idx (ck ?s1)) (triangles ?s1) = Some ts'"
    using rest inc ok by (simp add: counter_simps nat_add_distrib)
  ultimately obtain s' where r: "(connect_step f)\<^sup>*\<^sup>* ?s1 s'" and e: "pc s' = Test_j"
      "ci s' = ci s" "sint (cj s') = sint (cj s) + 1" "triangles s' = ts'"
    using Suc.IH [of ?s1] Suc.prems(2,4) ok1 by auto
  have "(connect_step f)\<^sup>*\<^sup>* s s'" using step r by (rule converse_rtranclp_into_rtranclp)
  with e show ?case by blast
qed

lemma run_j:
  assumes "n - nat (sint (cj s)) = d" and "pc s = Test_j" and "counters_ok n s" and "n < 2 ^ 31"
    and "connect_j f (idx (ci s)) (idx (cj s)) (triangles s) = Some ts'"
  shows "\<exists>s'. (connect_step f)\<^sup>*\<^sup>* s s' \<and> pc s' = Test_i
           \<and> sint (ci s') = sint (ci s) + 1 \<and> triangles s' = ts'"
  using assms
proof (induction d arbitrary: s)
  case 0
  then have ok: "length (triangles s) = n" "0 \<le> sint (ci s)" "sint (ci s) < sint (cj s)"
      "sint (cj s) = int n"
    by (auto simp: counters_ok_def)
  then have nb: "\<not> below_size (cj s) (triangles s)" using "0.prems"(4) by (simp add: counter_simps)
  have "ts' = triangles s"
    using "0.prems"(5) ok by (subst (asm) connect_j.simps) (simp add: counter_simps)
  moreover have "connect_step f s (s\<lparr>pc := Test_i, ci := ci s + 1\<rparr>)"
    using "0.prems"(2) nb by (rule next_i)
  moreover have "sint (ci s + 1) = sint (ci s) + 1"
    using ok "0.prems"(4) by (intro sint_incr_below [where n = n]) simp_all
  ultimately show ?case by (intro exI [of _ "s\<lparr>pc := Test_i, ci := ci s + 1\<rparr>"]) simp
next
  case (Suc d)
  then have ok: "length (triangles s) = n" "0 \<le> sint (ci s)" "sint (ci s) < sint (cj s)"
      "sint (cj s) < int n"
    by (auto simp: counters_ok_def)
  then have b: "below_size (cj s) (triangles s)" using Suc.prems(4) by (simp add: counter_simps)
  have ij: "idx (cj s) < length (triangles s)" using ok by (simp add: counter_simps)
  obtain ts1 where inner: "connect_k f (idx (ci s)) (idx (cj s)) (Suc (idx (cj s))) (triangles s) = Some ts1"
    and rest: "connect_j f (idx (ci s)) (Suc (idx (cj s))) ts1 = Some ts'"
    using Suc.prems(5) ij by (subst (asm) connect_j.simps) (auto split: option.splits)
  let ?s1 = "s\<lparr>pc := Test_k, ck := cj s + 1\<rparr>"
  have step: "connect_step f s ?s1" using Suc.prems(2) b by (rule enter_k)
  have inc: "sint (cj s + 1) = sint (cj s) + 1"
    using ok Suc.prems(4) by (intro sint_incr_below [where n = n]) simp_all
  have ok1: "counters_ok n ?s1" using step Suc.prems(3,4) by (rule connect_step_counters_ok)
  have "connect_k f (idx (ci ?s1)) (idx (cj ?s1)) (idx (ck ?s1)) (triangles ?s1) = Some ts1"
    using inner inc ok by (simp add: counter_simps nat_add_distrib)
  then obtain s2 where r2: "(connect_step f)\<^sup>*\<^sup>* ?s1 s2" and e2: "pc s2 = Test_j" "ci s2 = ci s"
      "sint (cj s2) = sint (cj s) + 1" "triangles s2 = ts1"
    using run_k [OF refl, of ?s1 n f] ok1 Suc.prems(4) by auto
  have ok2: "counters_ok n s2" using r2 ok1 Suc.prems(4) by (rule connect_steps_counters_ok)
  have "n - nat (sint (cj s2)) = d" using Suc.prems(1) e2(3) ok by simp
  moreover have "connect_j f (idx (ci s2)) (idx (cj s2)) (triangles s2) = Some ts'"
    using rest e2 ok by (simp add: counter_simps nat_add_distrib)
  ultimately obtain s' where r: "(connect_step f)\<^sup>*\<^sup>* s2 s'" and e: "pc s' = Test_i"
      "sint (ci s') = sint (ci s) + 1" "triangles s' = ts'"
    using Suc.IH [of s2] e2 ok2 Suc.prems(4) by auto
  have "(connect_step f)\<^sup>*\<^sup>* s s'"
    using step r2 r by (meson converse_rtranclp_into_rtranclp rtranclp_trans)
  with e show ?case by blast
qed

lemma run_i:
  assumes "n - nat (sint (ci s)) = d" and "pc s = Test_i" and "counters_ok n s" and "n < 2 ^ 31"
    and "connect_i f (idx (ci s)) (triangles s) = Some ts'"
  shows "\<exists>s'. (connect_step f)\<^sup>*\<^sup>* s s' \<and> pc s' = Exit \<and> triangles s' = ts'"
  using assms
proof (induction d arbitrary: s)
  case 0
  then have ok: "length (triangles s) = n" "0 \<le> sint (ci s)" "sint (ci s) = int n"
    by (auto simp: counters_ok_def)
  then have nb: "\<not> below_size (ci s) (triangles s)" using "0.prems"(4) by (simp add: counter_simps)
  have "ts' = triangles s"
    using "0.prems"(5) ok by (subst (asm) connect_i.simps) (simp add: counter_simps)
  moreover have "connect_step f s (s\<lparr>pc := Exit\<rparr>)" using "0.prems"(2) nb by (rule exit_i)
  ultimately show ?case by (intro exI [of _ "s\<lparr>pc := Exit\<rparr>"]) simp
next
  case (Suc d)
  then have ok: "length (triangles s) = n" "0 \<le> sint (ci s)" "sint (ci s) < int n"
    by (auto simp: counters_ok_def)
  then have b: "below_size (ci s) (triangles s)" using Suc.prems(4) by (simp add: counter_simps)
  have ii: "idx (ci s) < length (triangles s)" using ok by (simp add: counter_simps)
  obtain ts1 where inner: "connect_j f (idx (ci s)) (Suc (idx (ci s))) (triangles s) = Some ts1"
    and rest: "connect_i f (Suc (idx (ci s))) ts1 = Some ts'"
    using Suc.prems(5) ii by (subst (asm) connect_i.simps) (auto split: option.splits)
  let ?s1 = "s\<lparr>pc := Test_j, cj := ci s + 1\<rparr>"
  have step: "connect_step f s ?s1" using Suc.prems(2) b by (rule enter_j)
  have inc: "sint (ci s + 1) = sint (ci s) + 1"
    using ok Suc.prems(4) by (intro sint_incr_below [where n = n]) simp_all
  have ok1: "counters_ok n ?s1" using step Suc.prems(3,4) by (rule connect_step_counters_ok)
  have "connect_j f (idx (ci ?s1)) (idx (cj ?s1)) (triangles ?s1) = Some ts1"
    using inner inc ok by (simp add: counter_simps nat_add_distrib)
  then obtain s2 where r2: "(connect_step f)\<^sup>*\<^sup>* ?s1 s2" and e2: "pc s2 = Test_i"
      "sint (ci s2) = sint (ci s) + 1" "triangles s2 = ts1"
    using run_j [OF refl, of ?s1 n f] ok1 Suc.prems(4) by auto
  have ok2: "counters_ok n s2" using r2 ok1 Suc.prems(4) by (rule connect_steps_counters_ok)
  have "n - nat (sint (ci s2)) = d" using Suc.prems(1) e2(2) ok by simp
  moreover have "connect_i f (idx (ci s2)) (triangles s2) = Some ts'"
    using rest e2 ok by (simp add: counter_simps nat_add_distrib)
  ultimately obtain s' where r: "(connect_step f)\<^sup>*\<^sup>* s2 s'" and e: "pc s' = Exit" "triangles s' = ts'"
    using Suc.IH [of s2] e2 ok2 Suc.prems(4) by auto
  have "(connect_step f)\<^sup>*\<^sup>* s s'"
    using step r2 r by (meson converse_rtranclp_into_rtranclp rtranclp_trans)
  with e show ?case by blast
qed

subsection \<open>Determinism\<close>

lemma connect_step_deterministic:
  "connect_step f s s1 \<Longrightarrow> connect_step f s s2 \<Longrightarrow> s1 = s2"
  by (auto elim!: connect_stepE)

lemma connect_exit_final: "pc s = Exit \<Longrightarrow> \<not> connect_step f s s'"
  by (auto elim: connect_stepE)

lemma connect_machine_run:
  assumes "length ts < 2 ^ 31"
  shows "\<exists>e. (connect_step f)\<^sup>*\<^sup>* (connect_start ts) e \<and> pc e = Exit
             \<and> connect_i f 0 ts = Some (triangles e)"
proof -
  obtain ts' where ts': "connect_i f 0 ts = Some ts'"
    using connect_i_Some [where P = "\<lambda>_. True" and f = f and ts = ts] connect_body_triple_Some
    by fastforce
  have "connect_i f (idx (ci (connect_start ts))) (triangles (connect_start ts)) = Some ts'"
    using ts' by (simp add: connect_start_def idx_def)
  then obtain e where "(connect_step f)\<^sup>*\<^sup>* (connect_start ts) e" "pc e = Exit" "triangles e = ts'"
    using run_i [OF refl, of "connect_start ts" "length ts" f] counters_ok_start assms
    by (auto simp: connect_start_def)
  with ts' show ?thesis by blast
qed

lemma connect_demo_run:
  "(connect_step f)\<^sup>*\<^sup>* (connect_start [t]) \<lparr>triangles = [t], pc = Exit, ci = 1, cj = 1, ck = 0\<rparr>"
proof -
  have 1: "connect_step f (connect_start [t]) \<lparr>triangles = [t], pc = Test_j, ci = 0, cj = 1, ck = 0\<rparr>"
    using enter_j [of "connect_start [t]" f] by (simp add: connect_start_def below_size_def size_of_def)
  have 2: "connect_step f \<lparr>triangles = [t], pc = Test_j, ci = 0, cj = 1, ck = 0\<rparr>
      \<lparr>triangles = [t], pc = Test_i, ci = 1, cj = 1, ck = 0\<rparr>"
    using next_i [of "\<lparr>triangles = [t], pc = Test_j, ci = 0, cj = 1, ck = 0\<rparr>" f]
    by (simp add: below_size_def size_of_def)
  have 3: "connect_step f \<lparr>triangles = [t], pc = Test_i, ci = 1, cj = 1, ck = 0\<rparr>
      \<lparr>triangles = [t], pc = Exit, ci = 1, cj = 1, ck = 0\<rparr>"
    using exit_i [of "\<lparr>triangles = [t], pc = Test_i, ci = 1, cj = 1, ck = 0\<rparr>" f]
    by (simp add: below_size_def size_of_def)
  from 1 2 3 show ?thesis by (meson converse_rtranclp_into_rtranclp rtranclp.rtrancl_refl)
qed

subsection \<open>Properties of the machine\<close>

text \<open>
  C26. On a vector of at most \<open>INT_MAX\<close> triangles, every state the pass reaches is
  well formed: the vector keeps its size, the \<open>int\<close> counters are ordered indices
  \<open>0 \<le> i < j < k \<le> n\<close> that never overflow, and when the body runs, the indices
  \<open>operator[]\<close> receives are in range and strictly increasing.
\<close>

theorem connect_counters_in_range:
  assumes "length ts < 2 ^ 31" and "(connect_step f)\<^sup>*\<^sup>* (connect_start ts) s"
  shows "counters_ok (length ts) s
         \<and> (pc s = Test_k \<and> below_size (ck s) (triangles s) \<longrightarrow>
              idx (ci s) < idx (cj s) \<and> idx (cj s) < idx (ck s) \<and> idx (ck s) < length ts)"
proof -
  have ok: "counters_ok (length ts) s"
    using assms(2) counters_ok_start assms(1) by (rule connect_steps_counters_ok)
  moreover have "idx (ci s) < idx (cj s) \<and> idx (cj s) < idx (ck s) \<and> idx (ck s) < length ts"
    if "pc s = Test_k" and "below_size (ck s) (triangles s)"
    using ok that assms(1) by (auto simp: counters_ok_def counter_simps)
  ultimately show ?thesis by blast
qed

lemma connect_counters_in_range_witness:
  "length [Triangle_init (Point3D 0 0 0) (Point3D 4 0 0) (Point3D 0 4 0)] < (2::nat) ^ 31
   \<and> counters_ok 1 \<lparr>triangles = [Triangle_init (Point3D 0 0 0) (Point3D 4 0 0) (Point3D 0 4 0)], pc = Exit, ci = 1, cj = 1, ck = 0\<rparr>"
  using connect_counters_in_range [OF _ connect_demo_run [of improveEquilateral_default "Triangle_init (Point3D 0 0 0) (Point3D 4 0 0) (Point3D 0 4 0)"]]
  by simp

text \<open>
  C27. Liveness: on a vector of at most \<open>INT_MAX\<close> triangles, from every state the pass
  reaches, whatever the adjusting call does, the machine goes on to the exit of the
  method: it never gets stuck on an out-of-range access and never loops.
\<close>

theorem connect_machine_terminates:
  assumes "length ts < 2 ^ 31" and "(connect_step f)\<^sup>*\<^sup>* (connect_start ts) s"
  shows "\<exists>e. (connect_step f)\<^sup>*\<^sup>* s e \<and> pc e = Exit"
proof -
  obtain e where e: "(connect_step f)\<^sup>*\<^sup>* (connect_start ts) e" "pc e = Exit"
    using connect_machine_run [OF assms(1), of f] by blast
  have "(connect_step f)\<^sup>*\<^sup>* s e"
    using connect_step_deterministic e(1) connect_exit_final [OF e(2)] assms(2)
    by (rule deterministic_reach_final)
  with e(2) show ?thesis by blast
qed

lemma connect_machine_terminates_witness:
  "length [Triangle_init (Point3D 0 0 0) (Point3D 4 0 0) (Point3D 0 4 0)] < (2::nat) ^ 31
   \<and> (\<exists>e. (connect_step improveEquilateral_default)\<^sup>*\<^sup>* (connect_start [Triangle_init (Point3D 0 0 0) (Point3D 4 0 0) (Point3D 0 4 0)]) e
          \<and> pc e = Exit)"
  using connect_machine_terminates [of "[Triangle_init (Point3D 0 0 0) (Point3D 4 0 0) (Point3D 0 4 0)]" improveEquilateral_default
      "connect_start [Triangle_init (Point3D 0 0 0) (Point3D 4 0 0) (Point3D 0 4 0)]"]
  by simp

text \<open>
  C28. Refinement: the state in which the machine leaves the method holds the vector
  that the loop model \<open>connectClosestPoints_with\<close> returns.  The \<open>int\<close> counters, their
  conversion to \<open>size_t\<close> and the small steps implement the three nested loops.
\<close>

theorem connect_machine_refines:
  assumes "length ts < 2 ^ 31" and "(connect_step f)\<^sup>*\<^sup>* (connect_start ts) s" and "pc s = Exit"
  shows "connectClosestPoints_with f \<lparr>triangles = ts\<rparr> = Some \<lparr>triangles = triangles s\<rparr>"
proof -
  obtain e where e: "(connect_step f)\<^sup>*\<^sup>* (connect_start ts) e" "pc e = Exit"
      "connect_i f 0 ts = Some (triangles e)"
    using connect_machine_run [OF assms(1), of f] by blast
  have "(connect_step f)\<^sup>*\<^sup>* s e"
    using connect_step_deterministic e(1) connect_exit_final [OF e(2)] assms(2)
    by (rule deterministic_reach_final)
  then have "e = s" using connect_exit_final [OF assms(3)] by (rule final_reach_eq)
  with e(3) show ?thesis by (simp add: connectClosestPoints_with_def)
qed

lemma connect_machine_refines_witness:
  "connectClosestPoints_with improveEquilateral_default \<lparr>triangles = [Triangle_init (Point3D 0 0 0) (Point3D 4 0 0) (Point3D 0 4 0)]\<rparr>
   = Some \<lparr>triangles = [Triangle_init (Point3D 0 0 0) (Point3D 4 0 0) (Point3D 0 4 0)]\<rparr>"
  using connect_machine_refines [OF _ connect_demo_run [of improveEquilateral_default "Triangle_init (Point3D 0 0 0) (Point3D 4 0 0) (Point3D 0 4 0)"]]
  by simp

lemma run_k_upto:
  assumes "int m - sint (ck s) = int d" and "pc s = Test_k" and "0 \<le> sint (ci s)"
    and "sint (ci s) < sint (cj s)" and "sint (cj s) < sint (ck s)" and "sint (ck s) \<le> int m"
    and "m \<le> 2147483647" and "m < length (triangles s)" and "length (triangles s) < 2 ^ 64"
  shows "\<exists>s'. (connect_step f)\<^sup>*\<^sup>* s s' \<and> pc s' = Test_k \<and> ci s' = ci s \<and> cj s' = cj s
           \<and> sint (ck s') = int m \<and> length (triangles s') = length (triangles s)"
  using assms
proof (induction d arbitrary: s)
  case 0
  then show ?case by (intro exI [of _ s]) simp
next
  case (Suc d)
  let ?n = "length (triangles s)"
  have k: "sint (ck s) < int m" using Suc.prems(1) by simp
  have b: "below_size (ck s) (triangles s)"
    using k Suc.prems(3-5,8,9) by (simp add: below_size_nonneg_size_t)
  have idxs: "idx (ci s) < ?n" "idx (cj s) < ?n" "idx (ck s) < ?n"
    using k Suc.prems(3-5,8) by (simp_all add: idx_nonneg)
  obtain ts1 where body: "connect_body f (idx (ci s)) (idx (cj s)) (idx (ck s)) (triangles s) = Some ts1"
    using connect_body_Some_in_range [OF idxs] by blast
  let ?s1 = "s\<lparr>triangles := ts1, ck := ck s + 1\<rparr>"
  have step: "connect_step f s ?s1" using Suc.prems(2) b body by (rule connect_step.body)
  have inc: "sint (ck s + 1) = sint (ck s) + 1"
    using k Suc.prems(7) by (intro sint_incr) simp
  have len: "length ts1 = ?n" using body by (rule connect_body_length)
  obtain s' where r: "(connect_step f)\<^sup>*\<^sup>* ?s1 s'" and e: "pc s' = Test_k" "ci s' = ci s"
      "cj s' = cj s" "sint (ck s') = int m" "length (triangles s') = ?n"
    using Suc.IH [of ?s1] Suc.prems inc len by auto
  have "(connect_step f)\<^sup>*\<^sup>* s s'" using step r by (rule converse_rtranclp_into_rtranclp)
  with e show ?case by blast
qed

text \<open>
  C29. On a vector of \<open>2\<^sup>3\<^sup>1\<close> triangles or more, whatever the adjusting call
  does, the pass reaches the state in which the body runs with \<open>k = INT_MAX\<close>, so that
  the \<open>k++\<close> that follows overflows a signed \<open>int\<close>: undefined behaviour in C++.  No
  counter overflows on the way there.
\<close>

theorem connect_reaches_int_max_increment:
  assumes "2 ^ 31 \<le> length ts" and "length ts < 2 ^ 64"
  shows "\<exists>s. (connect_step f)\<^sup>*\<^sup>* (connect_start ts) s \<and> pc s = Test_k
             \<and> below_size (ck s) (triangles s) \<and> sint (ck s) = 2147483647"
proof -
  let ?s0 = "connect_start ts"
  let ?s1 = "?s0\<lparr>pc := Test_j, cj := ci ?s0 + 1\<rparr>"
  let ?s2 = "?s1\<lparr>pc := Test_k, ck := cj ?s1 + 1\<rparr>"
  have ne: "0 < length ts" using assms(1) by (rule less_le_trans [rotated]) simp
  have b0: "below_size (ci ?s0) (triangles ?s0)"
    using ne assms(2) by (simp add: connect_start_def below_size_nonneg_size_t)
  have b1: "below_size (cj ?s1) (triangles ?s1)"
    using assms by (simp add: connect_start_def below_size_nonneg_size_t)
  have st1: "connect_step f ?s0 ?s1" using b0 by (intro enter_j) (simp_all add: connect_start_def)
  have st2: "connect_step f ?s1 ?s2" using b1 by (intro enter_k) simp_all
  have s2: "pc ?s2 = Test_k" "sint (ci ?s2) = 0" "sint (cj ?s2) = 1" "sint (ck ?s2) = 2"
    "triangles ?s2 = ts"
    by (simp_all add: connect_start_def)
  obtain s where r: "(connect_step f)\<^sup>*\<^sup>* ?s2 s" and e: "pc s = Test_k" "ci s = ci ?s2"
      "cj s = cj ?s2" "sint (ck s) = 2147483647" "length (triangles s) = length ts"
    using run_k_upto [of 2147483647 ?s2 "2147483647 - 2" f] s2 assms by auto
  have "below_size (ck s) (triangles s)" using e(4,5) assms by (simp add: below_size_nonneg_size_t)
  moreover have "(connect_step f)\<^sup>*\<^sup>* ?s0 s"
    using st1 st2 r by (meson converse_rtranclp_into_rtranclp)
  ultimately show ?thesis using e(1,4) by blast
qed

lemma connect_reaches_int_max_increment_witness:
  "(2::nat) ^ 31 \<le> length (replicate (2 ^ 31) (Triangle_init (Point3D 0 0 0) (Point3D 4 0 0) (Point3D 0 4 0)))
   \<and> length (replicate (2 ^ 31) (Triangle_init (Point3D 0 0 0) (Point3D 4 0 0) (Point3D 0 4 0))) < (2::nat) ^ 64
   \<and> (\<exists>s. (connect_step improveEquilateral_default)\<^sup>*\<^sup>*
            (connect_start (replicate (2 ^ 31) (Triangle_init (Point3D 0 0 0) (Point3D 4 0 0) (Point3D 0 4 0)))) s
          \<and> pc s = Test_k \<and> below_size (ck s) (triangles s) \<and> sint (ck s) = 2147483647)"
  using connect_reaches_int_max_increment [of "replicate (2 ^ 31) (Triangle_init (Point3D 0 0 0) (Point3D 4 0 0) (Point3D 0 4 0))"
      improveEquilateral_default]
  by simp

end
