(* ===== verification/Spec2Isabelle.thy ===== *)
theory Spec2Isabelle
  imports Demo_Main Connect_Machine
begin

text \<open>
  \<^bold>\<open>A verification development of the 3-D triangle kernel of \<open>src/main.cpp\<close>.\<close>

  \<^medskip>
  \<^bold>\<open>The program.\<close>  One C++ file.  \<open>class Point3D\<close> (lines 9--56) is a value
  with three \<open>double\<close> fields and the operators \<open>+\<close>, \<open>-\<close>, \<open>* double\<close>,
  \<open>/ double\<close>, \<open>cross\<close>, \<open>distanceTo\<close> and the two-mode \<open>vector_tweak\<close>.  The
  free functions \<open>determinant\<close>, \<open>dotProduct\<close>, \<open>angleBetweenVectors\<close>,
  \<open>normalVector\<close> and \<open>sign\<close> (lines 59--82) are built on it.  \<open>class Triangle\<close>
  (lines 86--169) holds three corners and calls them for \<open>contains\<close>, \<open>area\<close>,
  \<open>sideLength\<close>, \<open>isEquilateral\<close> and \<open>improveEquilateral\<close>.  \<open>class Triangles\<close>
  (lines 172--192) owns a \<open>std::vector<Triangle>\<close>; its \<open>connectClosestPoints\<close>
  scans all index triples \<open>i < j < k\<close> and calls back into
  \<open>Triangle::contains\<close> and \<open>Triangle::improveEquilateral\<close>.  \<open>main\<close> (lines
  195--210) drives one triangle through \<open>isEquilateral\<close> and \<open>improveEquilateral\<close>.

  \<^medskip>
  \<^bold>\<open>The theories.\<close>
  \<^item> \<open>Prelude\<close>: \<open>scalar\<close> (the model of \<open>double\<close>), the \<open>point_defs\<close>
    collection, lemmas on sums of three squares and on the relative spread
    \<open>(M - m) / M\<close>, and the fold \<open>fold_option\<close> in the option monad with the lemma
    \<open>for_loop_as_fold_option\<close>: a C++ \<open>for\<close> loop over a vector whose size the body
    keeps is a fold over the indices fixed at the start.
  \<^item> \<open>Point_Algebra\<close>: the datatype \<open>Point3D\<close> with the selectors \<open>x\<close>, \<open>y\<close>,
    \<open>z\<close>; \<open>point_add\<close>, \<open>point_sub\<close> and \<open>point_origin\<close> (the source's \<open>+\<close>,
    \<open>-\<close> and \<open>{0, 0, 0}\<close>), which are \<open>+\<close>, \<open>-\<close> and \<open>0\<close> of an instance of
    \<open>ab_group_add\<close>; \<open>point_mul\<close>, \<open>point_div\<close>, \<open>cross\<close>, \<open>distanceTo\<close>, and
    \<open>vector_tweak\<close>, which returns (receiver after the call, returned point).
  \<^item> \<open>Geometry\<close>: the free functions, Lagrange's identity, Cauchy--Schwarz, the
    triangle inequality, and the characterisation of \<open>sign\<close>.
  \<^item> \<open>Triangle_Model\<close>: the record \<open>Triangle\<close> and its methods;
    \<open>improveEquilateral\<close> returns (receiver after the call, returned triangle).
  \<^item> \<open>Triangle_Set\<close>: the record \<open>Triangles\<close>, \<open>addTriangle\<close>, the unchecked
    vector access \<open>vector_at\<close>/\<open>vector_assign\<close> (out of range is \<open>None\<close>), the loop
    body \<open>connect_body\<close> and the three loops \<open>connect_k\<close>, \<open>connect_j\<close>,
    \<open>connect_i\<close> as \<open>partial_function (option)\<close>, and \<open>connectClosestPoints\<close>.
    The pass is stated over any adjusting call (the interface \<open>adjust\<close>:
    receiver after the call, returned triangle); the source's pass instantiates it with
    \<open>improveEquilateral_default\<close>.
  \<^item> \<open>Console_Output\<close>: \<open>Point3D::print\<close> and \<open>Triangle::print\<close> as the text they
    write, over the rendering \<open>fmt\<close> of a \<open>double\<close> (the interface to the stream
    library); \<open>text_lines\<close> joins lines ended by \<open>std::endl\<close>.
  \<^item> \<open>Double_Format\<close>: \<open>cout_double\<close>, the rendering the standard library gives a
    \<open>double\<close> on \<open>std::cout\<close> with the default flags (\<open>printf("%.6g")\<close>: six
    significant digits, fixed or exponent notation, trailing zeros removed), built from
    \<open>digits_of\<close>, \<open>fixed_g\<close> and \<open>sci_g\<close>.  It models the library, not the
    repository, and is the \<open>fmt\<close> that \<open>main\<close>'s exact output is stated for.
  \<^item> \<open>Demo_Main\<close>: \<open>main\<close> as the record of the values it prints (\<open>main_run\<close>) and
    as the text it writes (\<open>main_stdout\<close>), the second built from the first.
  \<^item> \<open>Connect_Machine\<close>: \<open>connectClosestPoints\<close> again, as the inductive small-step
    relation \<open>connect_step\<close> on the record \<open>ConnectState\<close> (the object's vector
    extended by the loop test \<open>pc\<close> the control is at and the counters \<open>i\<close>, \<open>j\<close>,
    \<open>k\<close>).  The counters are \<open>int\<close>s, 32-bit words whose \<open>++\<close> wraps; each loop
    test converts the counter to the 64-bit \<open>size_t\<close> by sign extension
    (\<open>below_size\<close>), and \<open>operator[]\<close> receives that conversion (\<open>idx\<close>).
  \<^item> This theory: properties that span the components.

  \<^medskip>
  \<^bold>\<open>What the lemmas show.\<close>
  \<^item> Vector algebra: anticommutativity and orthogonality of \<open>cross\<close>, the triple-product
    laws of \<open>determinant\<close>, Lagrange's identity, \<open>distanceTo\<close> is a metric, the
    unit normal, the range and cosine of the angle, the \<open>*\<close>/\<open>/\<close> round trip, the two
    modes of \<open>vector_tweak\<close>.
  \<^item> \<open>sign(a, b)\<close> is \<open>1\<close> exactly when \<open>a \<times> b \<noteq> 0\<close>, hence symmetric: it never
    reports a turn direction, because \<open>determinant(a, b, n) = |a \<times> b| \<ge> 0\<close> for the
    normal \<open>n\<close> it computes.
  \<^item> Hence \<open>contains\<close> accepts a point \<open>p1 + s(p2 - p1) + r(p3 - p1)\<close> of the plane of a
    non-degenerate triangle iff \<open>s \<noteq> 0\<close>, \<open>r \<noteq> 0\<close>, \<open>s + r \<noteq> 1\<close>: every point of
    the plane off the three edge lines, inside or outside (for instance \<open>(5,5,0)\<close> for
    the triangle \<open>(0,0,0), (4,0,0), (0,4,0)\<close>), and no corner.  Off the plane it
    accepts exactly the points with a positive determinant, a whole open half-space
    (for instance \<open>(100, 100, -1)\<close>), although the comment calls the determinant test
    the condition for lying in the plane.
  \<^item> \<open>area\<close> and \<open>isEquilateral\<close>: non-negativity, degeneracy, rotation
    invariance, the range \<open>[0, 1]\<close> (corners not all one point), the value
    \<open>1\<close> exactly when two corners coincide and the third does not, and invariance
    (deviation) or scaling by \<open>k\<^sup>2\<close> (area) under a similarity.  \<open>area\<close> refines the
    reference definition \<open>heron_area\<close> (Heron's formula on the three side lengths).
  \<^item> \<open>improveEquilateral\<close> returns its receiver unchanged and leaves it unchanged: its
    \<open>while\<close> body returns on every path and assigns no corner.  So it terminates, but a
    triangle above the tolerance stays above it.
  \<^item> The loop body fails (out-of-range \<open>operator[]\<close>, \<open>None\<close>) exactly when \<open>i\<close>
    or \<open>j\<close> is out of range, or the first \<open>contains\<close> holds and \<open>k\<close> is out of
    range.
  \<^item> \<open>connectClosestPoints\<close> terminates and never indexes out of range, for every
    adjusting call; it visits the triples in lexicographic order; it keeps every
    per-triangle invariant the call keeps; it changes nothing when no triangle contains
    the first corner of a later one; and with the source's call it changes nothing at all.
  \<^item> The machine with \<open>int\<close> counters, on at most \<open>INT_MAX\<close> triangles: every reachable
    state is well formed (\<open>counters_ok\<close>: ordered, in-range, non-overflowing counters,
    kept by every step by rule induction); from every reachable state the exit is
    reached (liveness); the step relation is deterministic and the exit state holds the
    vector the loop model returns (refinement).  On \<open>2\<^sup>3\<^sup>1\<close> triangles or more,
    the pass reaches the body with \<open>k = INT_MAX\<close>, so the \<open>k++\<close> that follows is a
    signed overflow, undefined behaviour (no counter overflows before).
  \<^item> \<open>main\<close> prints the deviation \<open>1 - \<surd>2/3\<close> before and after the call, and
    writes exactly six lines whatever the rendering of a \<open>double\<close>; with the default
    rendering they are \<open>Before deviation from equilateral: 0.528595\<close>,
    \<open>Triangle points:\<close>, \<open>Point(0, 0, 6)\<close>, \<open>Point(1, 0, 0)\<close>,
    \<open>Point(0, 3, 0)\<close> and \<open>After deviation from equilateral: 0.528595\<close>.

  \<^medskip>
  \<^bold>\<open>Bounds and fuel.\<close>  No fuel is used.  The three loops are
  \<open>partial_function (option)\<close>; their termination is a theorem
  (\<open>connectClosestPoints_with_returns\<close>), proved from \<open>for_loop_as_fold_option\<close> with
  the measure \<open>size - k\<close>.  \<open>improveEquilateral\<close>'s loop runs its body at most once, so
  it is an \<open>if\<close>.  The loop model of \<open>Triangle_Set\<close> counts with
  \<open>nat\<close>; the machine of \<open>Connect_Machine\<close> counts with 32-bit words, and its theorems
  assume at most \<open>INT_MAX = 2\<^sup>3\<^sup>1 - 1\<close> triangles, the largest size for which
  no counter overflows (\<open>connect_reaches_int_max_increment\<close> shows that beyond it
  the pass reaches an overflowing \<open>k++\<close>).  Where a counter would overflow the model
  wraps it, but no theorem depends on the wrapped value.  Its
  termination is proved by induction on the distance of each counter to the size.

  \<^medskip>
  \<^bold>\<open>Not modelled.\<close>  \<open>double\<close> is an exact real: rounding, NaN and infinity are not
  modelled.  Where the source divides by zero, HOL's \<open>x / 0 = 0\<close> applies.  For
  \<open>sign\<close> this gives the program's result, \<open>-1\<close>.  For \<open>normalVector\<close> of parallel
  vectors, \<open>angleBetweenVectors\<close> with a zero vector, and \<open>isEquilateral\<close> of a
  triangle with all corners equal, the program yields NaN and the model \<open>0\<close> or
  \<open>arccos 0\<close>.  The theorems about these functions exclude those inputs by their
  hypotheses, or state a fact the program's NaN shares (\<open>isEquilateral_one_iff\<close>:
  the deviation of such a triangle is not \<open>1\<close>).
  The text of the \<open>print\<close> methods and of \<open>main\<close> is modelled over a rendering
  \<open>fmt\<close> of a \<open>double\<close>; \<open>cout_double\<close> rounds the exact real half upwards where
  the library rounds the binary value, so the two differ only on a value within one
  unit in the last place of a rounding boundary (the deviation \<open>0.5285954\<dots>\<close> is
  \<open>2 \<cdot> 10\<^sup>-\<^sup>8\<close> away from one).  The flush of \<open>std::endl\<close> is not observable
  in the text.  The \<open>#include\<close> and \<open>using\<close> lines declare nothing to model.
\<close>

text \<open>
  C25. A set built by \<open>addTriangle\<close> from an empty one holds the triangles in insertion
  order, and the source's \<open>connectClosestPoints\<close> returns it unchanged.
\<close>

theorem build_and_connect:
  "connectClosestPoints (foldl (\<lambda>s t. addTriangle t s) \<lparr>triangles = []\<rparr> ts) = Some \<lparr>triangles = ts\<rparr>"
proof -
  have "triangles (foldl (\<lambda>s t. addTriangle t s) \<lparr>triangles = []\<rparr> ts) = ts"
    by (simp add: addTriangle_foldl)
  then show ?thesis
    by (simp add: connectClosestPoints_def connectClosestPoints_with_def connect_i_fixed
        improveEquilateral_default_fixed)
qed

end
